theory Spec2Isabelle
  imports Complex_Main "HOL-Library.Word"
begin

unbundle bit_operations_syntax

section \<open>Machine types\<close>

text \<open>
  The C integer types are fixed-width words: \<open>int16_t\<close> and \<open>uint16_t\<close> are
  \<open>16 word\<close> (read with \<open>sint\<close> and \<open>unat\<close> respectively), \<open>uint8_t\<close> is
  \<open>8 word\<close>, \<open>uint32_t\<close> is \<open>32 word\<close>. C computes on \<open>int\<close> after integer
  promotion, so a comparison such as \<^verbatim>\<open>y + height > 240\<close> is a comparison of
  mathematical integers \<open>sint y + sint height\<close>; a store into a 16-bit variable
  is \<open>word_of_int\<close>, which wraps (the behaviour of the target compiler).

  A C \<open>float\<close> is modelled by the real number it denotes (finite values only;
  NaN and infinities are outside the model). Negation, comparison and copying
  are exact on floats, so they are the operations on \<open>real\<close>. The one rounding
  operation of the game code, the product in \<open>Ball_Init\<close>, goes through
  \<open>f32_round\<close>.
\<close>

type_synonym int16_t = "16 word"
type_synonym uint16_t = "16 word"
type_synonym uint8_t = "8 word"
type_synonym uint32_t = "32 word"
type_synonym c_float = real

section \<open>Joystick: directions and user input (Joystick.h, Joystick.c)\<close>

datatype Direction = CENTRE | N | NE | E | SE | S | SW | W | NW

record UserInput =
  direction :: Direction
  magnitude :: c_float
  angle :: c_float

text \<open>The literal \<^verbatim>\<open>0.05f\<close>: the binary32 value nearest to 0.05, which is
  \<open>13421773 / 2^28\<close>. The bucket limits (22.5, 67.5, ...) are exact in binary32.\<close>

definition f32_0_05 :: c_float where
  "f32_0_05 = 13421773 / 268435456"

text \<open>The literal \<^verbatim>\<open>0.03f\<close>: \<open>16106127 / 2^29\<close>.\<close>

definition f32_0_03 :: c_float where
  "f32_0_03 = 16106127 / 536870912"

definition Joystick_GetDirection :: "c_float \<Rightarrow> c_float \<Rightarrow> Direction" where
  "Joystick_GetDirection ang mag =
     (if ang < 0 \<or> mag < f32_0_05 then CENTRE
      else if ang \<ge> 337.5 \<or> ang < 22.5 then N
      else if ang \<ge> 22.5 \<and> ang < 67.5 then NE
      else if ang \<ge> 67.5 \<and> ang < 112.5 then E
      else if ang \<ge> 112.5 \<and> ang < 157.5 then SE
      else if ang \<ge> 157.5 \<and> ang < 202.5 then S
      else if ang \<ge> 202.5 \<and> ang < 247.5 then SW
      else if ang \<ge> 247.5 \<and> ang < 292.5 then W
      else NW)"

text \<open>The eight compass points in clockwise order from North; bucket \<open>k\<close> is the
  45-degree sector centred on \<open>45 * k\<close> degrees.\<close>

definition compass_point :: "nat \<Rightarrow> Direction" where
  "compass_point k = [N, NE, E, SE, S, SW, W, NW] ! (k mod 8)"

definition bucket_of_angle :: "c_float \<Rightarrow> nat" where
  "bucket_of_angle ang = nat \<lfloor>(ang + 22.5) / 45\<rfloor> mod 8"

section \<open>Paddle (Paddle.h, Paddle.c)\<close>

record Paddle_t =
  pad_x :: int16_t
  pad_y :: int16_t
  pad_width :: int16_t
  pad_height :: int16_t
  pad_speed :: int16_t
  pad_score :: uint16_t

definition SCREEN_WIDTH :: int where "SCREEN_WIDTH = 240"
definition SCREEN_HEIGHT :: int where "SCREEN_HEIGHT = 240"

definition Paddle_Init ::
  "int16_t \<Rightarrow> int16_t \<Rightarrow> int16_t \<Rightarrow> int16_t \<Rightarrow> int16_t \<Rightarrow> Paddle_t" where
  "Paddle_Init px py w h sp =
     \<lparr>pad_x = px, pad_y = py, pad_width = w, pad_height = h, pad_speed = sp, pad_score = 0\<rparr>"

text \<open>\<^verbatim>\<open>paddle->y -= paddle->speed\<close> computes on \<open>int\<close> and stores into an
  \<open>int16_t\<close>: word subtraction. \<^verbatim>\<open>int16_t paddle_bottom = paddle->y + paddle->height\<close>
  likewise truncates the sum to 16 bits before it is compared with the screen
  height.\<close>

definition Paddle_Update :: "Paddle_t \<Rightarrow> UserInput \<Rightarrow> Paddle_t" where
  "Paddle_Update paddle inp =
     (let d = direction inp;
          p1 = (if d = N \<or> d = NE \<or> d = NW
                  then paddle\<lparr>pad_y := pad_y paddle - pad_speed paddle\<rparr>
                else if d = S \<or> d = SE \<or> d = SW
                  then paddle\<lparr>pad_y := pad_y paddle + pad_speed paddle\<rparr>
                else paddle);
          p2 = (if sint (pad_y p1) < 0 then p1\<lparr>pad_y := 0\<rparr> else p1);
          paddle_bottom = (word_of_int (sint (pad_y p2) + sint (pad_height p2)) :: int16_t)
      in if sint paddle_bottom > SCREEN_HEIGHT
           then p2\<lparr>pad_y := word_of_int (SCREEN_HEIGHT - sint (pad_height p2))\<rparr>
         else p2)"

definition Paddle_AddScore :: "Paddle_t \<Rightarrow> Paddle_t" where
  "Paddle_AddScore paddle = paddle\<lparr>pad_score := pad_score paddle + 1\<rparr>"

definition Paddle_GetScore :: "Paddle_t \<Rightarrow> uint16_t" where
  "Paddle_GetScore paddle = pad_score paddle"

text \<open>A paddle whose 16-bit position arithmetic cannot wrap: the height fits on
  the screen and neither \<open>y - speed\<close>, \<open>y + speed\<close> nor the bottom edge leaves
  the \<open>int16_t\<close> range.\<close>

definition paddle_no_wrap :: "Paddle_t \<Rightarrow> bool" where
  "paddle_no_wrap p \<longleftrightarrow>
     0 \<le> sint (pad_height p) \<and> sint (pad_height p) \<le> 240 \<and>
     \<bar>sint (pad_speed p)\<bar> \<le> 32527 \<and>
     \<bar>sint (pad_y p)\<bar> + \<bar>sint (pad_speed p)\<bar> + sint (pad_height p) \<le> 32767"

definition paddle_on_screen :: "Paddle_t \<Rightarrow> bool" where
  "paddle_on_screen p \<longleftrightarrow>
     0 \<le> sint (pad_y p) \<and> sint (pad_y p) + sint (pad_height p) \<le> SCREEN_HEIGHT"

section \<open>Single-precision rounding\<close>

text \<open>Round to nearest, ties to even, on the binary32 grid: the exponent \<open>e\<close> of
  a positive real is the largest \<open>e \<le> 127\<close> with \<open>2^e \<le> a\<close>, and at least
  \<open>-126\<close> (below that lies the subnormal range, which shares the spacing of
  exponent \<open>-126\<close>); the spacing of the grid there is \<open>2^(e - 23)\<close>. Results
  beyond the largest finite binary32 value are outside the model.\<close>

fun f32_exp_up :: "nat \<Rightarrow> int \<Rightarrow> real \<Rightarrow> int" where
  "f32_exp_up 0 e a = e"
| "f32_exp_up (Suc n) e a = (if 2 powi (e + 1) \<le> a then f32_exp_up n (e + 1) a else e)"

fun f32_exp_down :: "nat \<Rightarrow> int \<Rightarrow> real \<Rightarrow> int" where
  "f32_exp_down 0 e a = e"
| "f32_exp_down (Suc n) e a = (if a < 2 powi e then f32_exp_down n (e - 1) a else e)"

definition f32_exponent :: "real \<Rightarrow> int" where
  "f32_exponent a = (if 1 \<le> a then f32_exp_up 127 0 a else f32_exp_down 126 0 a)"

definition round_half_even :: "real \<Rightarrow> int" where
  "round_half_even q =
     (let f = \<lfloor>q\<rfloor>; r = q - of_int f
      in if r < 1 / 2 then f else if 1 / 2 < r then f + 1 else if even f then f else f + 1)"

definition f32_round :: "real \<Rightarrow> c_float" where
  "f32_round v =
     (if v = 0 then 0
      else let ulp = 2 powi (f32_exponent \<bar>v\<bar> - 23)
           in sgn v * of_int (round_half_even (\<bar>v\<bar> / ulp)) * ulp)"

definition f32_mul :: "c_float \<Rightarrow> c_float \<Rightarrow> c_float" where
  "f32_mul a b = f32_round (a * b)"

text \<open>The literal \<^verbatim>\<open>0.707f\<close>: \<open>11861492 / 2^24 = 2965373 / 2^22\<close>.\<close>

definition f32_0_707 :: c_float where
  "f32_0_707 = 2965373 / 4194304"

text \<open>The cast \<^verbatim>\<open>(int16_t)f\<close> truncates towards zero. (For a value outside the
  range of the target type C leaves the result undefined; the model wraps.)\<close>

definition f32_to_int16 :: "c_float \<Rightarrow> int16_t" where
  "f32_to_int16 v = word_of_int (if 0 \<le> v then \<lfloor>v\<rfloor> else \<lceil>v\<rceil>)"

text \<open>C integer division truncates towards zero.\<close>

definition c_div :: "int \<Rightarrow> int \<Rightarrow> int" where
  "c_div a b = sgn a * sgn b * (\<bar>a\<bar> div \<bar>b\<bar>)"

section \<open>Utilities (Utils.h)\<close>

record Position2D =
  pos_x :: int16_t
  pos_y :: int16_t

record AABB =
  box_x :: int16_t
  box_y :: int16_t
  box_width :: int16_t
  box_height :: int16_t

definition AABB_Collides :: "AABB \<Rightarrow> AABB \<Rightarrow> bool" where
  "AABB_Collides a b \<longleftrightarrow>
     sint (box_x a) < sint (box_x b) + sint (box_width b) \<and>
     sint (box_x a) + sint (box_width a) > sint (box_x b) \<and>
     sint (box_y a) < sint (box_y b) + sint (box_height b) \<and>
     sint (box_y a) + sint (box_height a) > sint (box_y b)"

text \<open>\<open>Random_U16\<close> draws one 32-bit number from the hardware generator. The
  draw is an input of the model: \<open>None\<close> when \<open>HAL_RNG_GenerateRandomNumber\<close>
  does not return \<open>HAL_OK\<close>, \<open>Some rnd\<close> otherwise.\<close>

definition Random_U16 :: "uint32_t option \<Rightarrow> uint16_t \<Rightarrow> uint16_t" where
  "Random_U16 draw mx =
     (case draw of
        None \<Rightarrow> 0
      | Some rnd \<Rightarrow> if mx = 0 then 0 else word_of_nat (unat rnd mod unat mx))"

definition Paddle_GetAABB :: "Paddle_t \<Rightarrow> AABB" where
  "Paddle_GetAABB paddle =
     \<lparr>box_x = pad_x paddle, box_y = pad_y paddle,
      box_width = pad_width paddle, box_height = pad_height paddle\<rparr>"

section \<open>Ball (Ball.h, Ball.c)\<close>

record Vector2D =
  vec_x :: c_float
  vec_y :: c_float

record Ball_t =
  ball_x :: int16_t
  ball_y :: int16_t
  ball_size :: int16_t
  velocity :: Vector2D

definition Ball_Init :: "int16_t \<Rightarrow> c_float \<Rightarrow> Ball_t" where
  "Ball_Init sz speed =
     \<lparr>ball_x = word_of_int (c_div (SCREEN_WIDTH - sint sz) 2),
      ball_y = word_of_int (c_div (SCREEN_HEIGHT - sint sz) 2),
      ball_size = sz,
      velocity = \<lparr>vec_x = f32_mul speed f32_0_707, vec_y = f32_mul speed f32_0_707\<rparr>\<rparr>"

definition Ball_Update :: "Ball_t \<Rightarrow> Ball_t" where
  "Ball_Update b =
     b\<lparr>ball_x := ball_x b + f32_to_int16 (vec_x (velocity b)),
       ball_y := ball_y b + f32_to_int16 (vec_y (velocity b))\<rparr>"

definition Ball_GetAABB :: "Ball_t \<Rightarrow> AABB" where
  "Ball_GetAABB b =
     \<lparr>box_x = ball_x b, box_y = ball_y b, box_width = ball_size b, box_height = ball_size b\<rparr>"

definition Ball_SetVelocity :: "Ball_t \<Rightarrow> c_float \<Rightarrow> c_float \<Rightarrow> Ball_t" where
  "Ball_SetVelocity b vx vy = b\<lparr>velocity := \<lparr>vec_x = vx, vec_y = vy\<rparr>\<rparr>"

definition Ball_GetVelocity :: "Ball_t \<Rightarrow> Vector2D" where
  "Ball_GetVelocity b = velocity b"

definition Ball_SetPos :: "Ball_t \<Rightarrow> Position2D \<Rightarrow> Ball_t" where
  "Ball_SetPos b pos = b\<lparr>ball_x := pos_x pos, ball_y := pos_y pos\<rparr>"

text \<open>The Euclidean length of a velocity vector.\<close>

definition speed_of :: "Vector2D \<Rightarrow> real" where
  "speed_of v = sqrt ((vec_x v)\<^sup>2 + (vec_y v)\<^sup>2)"

section \<open>Buzzer (Buzzer.h, Buzzer.c)\<close>

text \<open>The timer behind the buzzer: auto-reload, compare and counter registers
  and whether PWM output runs. \<open>htim\<close> in the configuration is a pointer to it;
  the model keeps the pointee inside the record.\<close>

record TIM_t =
  tim_arr :: uint32_t
  tim_ccr :: uint32_t
  tim_cnt :: uint32_t
  tim_pwm_running :: bool

record Buzzer_cfg_t =
  htim :: TIM_t
  tick_freq_hz :: uint32_t
  min_freq_hz :: uint32_t
  max_freq_hz :: uint32_t
  setup_done :: uint8_t
  pwm_started :: uint8_t

definition clamp_u32 :: "uint32_t \<Rightarrow> uint32_t \<Rightarrow> uint32_t \<Rightarrow> uint32_t" where
  "clamp_u32 v lo hi = (if v < lo then lo else if v > hi then hi else v)"

definition buzzer_init :: "Buzzer_cfg_t \<Rightarrow> Buzzer_cfg_t" where
  "buzzer_init cfg =
     (if setup_done cfg = 0 then cfg\<lparr>pwm_started := 0, setup_done := 1\<rparr> else cfg)"

definition buzzer_off :: "Buzzer_cfg_t \<Rightarrow> Buzzer_cfg_t" where
  "buzzer_off cfg =
     (if pwm_started cfg \<noteq> 0
        then cfg\<lparr>htim := (htim cfg)\<lparr>tim_ccr := 0, tim_pwm_running := False\<rparr>,
                 pwm_started := 0\<rparr>
      else cfg)"

text \<open>The division \<^verbatim>\<open>tick_freq_hz / freq_hz\<close> is unsigned 32-bit division; the
  divisor is zero only for a configuration with \<open>max_freq_hz = 0\<close>.\<close>

definition buzzer_tone :: "Buzzer_cfg_t \<Rightarrow> uint32_t \<Rightarrow> uint8_t \<Rightarrow> Buzzer_cfg_t" where
  "buzzer_tone cfg0 freq_hz0 volume_percent0 =
     (let cfg1 = (if setup_done cfg0 = 0 then buzzer_init cfg0 else cfg0)
      in if volume_percent0 = 0 \<or> freq_hz0 = 0 then buzzer_off cfg1
         else
           let freq_hz = clamp_u32 freq_hz0 (min_freq_hz cfg1) (max_freq_hz cfg1);
               cfg2 = (if pwm_started cfg1 = 0
                         then cfg1\<lparr>htim := (htim cfg1)\<lparr>tim_pwm_running := True\<rparr>,
                                   pwm_started := 1\<rparr>
                       else cfg1);
               arr0 = (tick_freq_hz cfg2 div freq_hz) - 1;
               arr = clamp_u32 arr0 1 0xFFFFFFFF;
               cfg3 = cfg2\<lparr>htim := (htim cfg2)\<lparr>tim_arr := arr, tim_cnt := 0\<rparr>\<rparr>;
               volume_percent = (ucast (clamp_u32 (ucast volume_percent0) 0 100) :: uint8_t);
               half_period = (arr + 1) div 2;
               ccr = (half_period * ucast volume_percent) div 100
           in cfg3\<lparr>htim := (htim cfg3)\<lparr>tim_ccr := ccr\<rparr>\<rparr>)"

section \<open>Game engine (PongEngine.h, PongEngine.c)\<close>

definition BALL_RESET_OFFSET :: int where "BALL_RESET_OFFSET = 20"
definition BUZZER_WALL_FREQ_HZ :: uint32_t where "BUZZER_WALL_FREQ_HZ = 1200"
definition BUZZER_PADDLE_FREQ_HZ :: uint32_t where "BUZZER_PADDLE_FREQ_HZ = 800"
definition BUZZER_VOLUME :: uint8_t where "BUZZER_VOLUME = 50"
definition BUZZER_BEEP_MS :: uint32_t where "BUZZER_BEEP_MS = 40"

record PongEngine_t =
  ball :: Ball_t
  paddle :: Paddle_t
  lives :: uint8_t

text \<open>The file-level state of PongEngine.c: the external buzzer configuration
  and the static stop deadline (0 means that no cue is pending).\<close>

record audio_t =
  buzzer_cfg :: Buzzer_cfg_t
  buzzer_stop_tick :: uint32_t

text \<open>What one call of \<open>PongEngine_Update\<close> reads from its environment: the
  value of \<open>HAL_GetTick()\<close> at each place that may read it (the beep of the
  top or bottom wall, of the right wall, of the paddle, and the buzzer update
  at the end of the frame) and the two draws of the random number generator
  of a goal reset.\<close>

record frame_env =
  tick_wall_y :: uint32_t
  tick_wall_x :: uint32_t
  tick_paddle :: uint32_t
  tick_buzzer :: uint32_t
  rng_dx :: "uint32_t option"
  rng_dy :: "uint32_t option"

definition PongEngine_Beep :: "uint32_t \<Rightarrow> uint32_t \<Rightarrow> audio_t \<Rightarrow> audio_t" where
  "PongEngine_Beep now freq_hz au =
     \<lparr>buzzer_cfg = buzzer_tone (buzzer_cfg au) freq_hz BUZZER_VOLUME,
      buzzer_stop_tick = now + BUZZER_BEEP_MS\<rparr>"

definition PongEngine_UpdateBuzzer :: "uint32_t \<Rightarrow> audio_t \<Rightarrow> audio_t" where
  "PongEngine_UpdateBuzzer now au =
     (if buzzer_stop_tick au \<noteq> 0 \<and> 0 \<le> sint (now - buzzer_stop_tick au)
        then \<lparr>buzzer_cfg = buzzer_off (buzzer_cfg au), buzzer_stop_tick = 0\<rparr>
      else au)"

text \<open>The velocity is read once, before the wall tests; each branch writes a
  velocity computed from that copy.\<close>

definition PongEngine_CheckWallCollision ::
  "frame_env \<Rightarrow> PongEngine_t \<times> audio_t \<Rightarrow> PongEngine_t \<times> audio_t" where
  "PongEngine_CheckWallCollision env st =
     (let engine = fst st; au = snd st;
          b = ball engine;
          vel = Ball_GetVelocity b;
          (b1, au1) =
            (if sint (ball_y b) \<le> 0
               then (Ball_SetVelocity (b\<lparr>ball_y := 2\<rparr>) (vec_x vel) (- vec_y vel),
                     PongEngine_Beep (tick_wall_y env) BUZZER_WALL_FREQ_HZ au)
             else if sint (ball_y b) + sint (ball_size b) \<ge> SCREEN_HEIGHT
               then (Ball_SetVelocity
                       (b\<lparr>ball_y := word_of_int (SCREEN_HEIGHT - sint (ball_size b) - 2)\<rparr>)
                       (vec_x vel) (- vec_y vel),
                     PongEngine_Beep (tick_wall_y env) BUZZER_WALL_FREQ_HZ au)
             else (b, au));
          (b2, au2) =
            (if sint (ball_x b1) + sint (ball_size b1) \<ge> SCREEN_WIDTH
               then (Ball_SetVelocity
                       (b1\<lparr>ball_x := word_of_int (SCREEN_WIDTH - sint (ball_size b1) - 2)\<rparr>)
                       (- vec_x vel) (vec_y vel),
                     PongEngine_Beep (tick_wall_x env) BUZZER_WALL_FREQ_HZ au1)
             else (b1, au1))
      in (engine\<lparr>ball := b2\<rparr>, au2))"

definition PongEngine_CheckPaddleCollision ::
  "frame_env \<Rightarrow> PongEngine_t \<times> audio_t \<Rightarrow> PongEngine_t \<times> audio_t" where
  "PongEngine_CheckPaddleCollision env st =
     (let engine = fst st; au = snd st;
          b = ball engine;
          vel = Ball_GetVelocity b;
          ball_box = Ball_GetAABB b;
          paddle_box = Paddle_GetAABB (paddle engine)
      in if AABB_Collides ball_box paddle_box
           then (engine\<lparr>ball := (Ball_SetVelocity b (- vec_x vel) (vec_y vel))
                                   \<lparr>ball_x := word_of_int (sint (box_x paddle_box)
                                                           + sint (box_width paddle_box))\<rparr>,
                         paddle := Paddle_AddScore (paddle engine)\<rparr>,
                 PongEngine_Beep (tick_paddle env) BUZZER_PADDLE_FREQ_HZ au)
         else (engine, au))"

text \<open>The velocity written by a goal reset is the constant expression
  \<^verbatim>\<open>8.0f * 0.707f\<close> on both axes.\<close>

definition reset_speed_component :: c_float where
  "reset_speed_component = f32_mul 8 f32_0_707"

definition PongEngine_CheckGoal :: "frame_env \<Rightarrow> PongEngine_t \<Rightarrow> PongEngine_t" where
  "PongEngine_CheckGoal env engine =
     (let b = ball engine
      in if sint (ball_x b) < 0
           then
             let lives' = lives engine - 1;
                 cx = (word_of_int (c_div (SCREEN_WIDTH - sint (ball_size b)) 2) :: int16_t);
                 cy = (word_of_int (c_div (SCREEN_HEIGHT - sint (ball_size b)) 2) :: int16_t);
                 dx = (word_of_int
                         (sint (Random_U16 (rng_dx env) (word_of_int (2 * BALL_RESET_OFFSET + 1)))
                          - BALL_RESET_OFFSET) :: int16_t);
                 dy = (word_of_int
                         (sint (Random_U16 (rng_dy env) (word_of_int (2 * BALL_RESET_OFFSET + 1)))
                          - BALL_RESET_OFFSET) :: int16_t);
                 center_pos = \<lparr>pos_x = cx + dx, pos_y = cy + dy\<rparr>;
                 b1 = Ball_SetPos b center_pos;
                 b2 = Ball_SetVelocity b1 reset_speed_component reset_speed_component
             in engine\<lparr>ball := b2, lives := lives'\<rparr>
         else engine)"

definition PongEngine_Init ::
  "int16_t \<Rightarrow> int16_t \<Rightarrow> int16_t \<Rightarrow> int16_t \<Rightarrow> int16_t \<Rightarrow> c_float \<Rightarrow> PongEngine_t" where
  "PongEngine_Init paddle_x paddle_y paddle_width paddle_height b_size b_speed =
     \<lparr>ball = Ball_Init b_size b_speed,
      paddle = Paddle_Init paddle_x paddle_y paddle_width paddle_height 6,
      lives = 4\<rparr>"

text \<open>The states inside one frame, in the order of the source: paddle update,
  ball update, wall collision, paddle collision, goal check, buzzer update.\<close>

definition after_move :: "UserInput \<Rightarrow> PongEngine_t \<Rightarrow> PongEngine_t" where
  "after_move inp engine =
     (let e1 = engine\<lparr>paddle := Paddle_Update (paddle engine) inp\<rparr>
      in e1\<lparr>ball := Ball_Update (ball e1)\<rparr>)"

definition after_collisions ::
  "frame_env \<Rightarrow> UserInput \<Rightarrow> PongEngine_t \<times> audio_t \<Rightarrow> PongEngine_t \<times> audio_t" where
  "after_collisions env inp st =
     PongEngine_CheckPaddleCollision env
       (PongEngine_CheckWallCollision env (after_move inp (fst st), snd st))"

text \<open>\<open>PongEngine_Update\<close> returns the remaining lives; the model returns them
  together with the updated engine and audio state.\<close>

definition PongEngine_Update ::
  "frame_env \<Rightarrow> UserInput \<Rightarrow> PongEngine_t \<times> audio_t \<Rightarrow> uint8_t \<times> PongEngine_t \<times> audio_t" where
  "PongEngine_Update env inp st =
     (let st4 = after_collisions env inp st;
          e5 = PongEngine_CheckGoal env (fst st4);
          au5 = PongEngine_UpdateBuzzer (tick_buzzer env) (snd st4)
      in (lives e5, e5, au5))"

text \<open>A run of frames: each frame has its own environment and joystick input.\<close>

fun PongEngine_run ::
  "(frame_env \<times> UserInput) list \<Rightarrow> PongEngine_t \<times> audio_t \<Rightarrow> PongEngine_t \<times> audio_t" where
  "PongEngine_run [] st = st"
| "PongEngine_run (f # fs) st = PongEngine_run fs (snd (PongEngine_Update (fst f) (snd f) st))"

text \<open>The ball meets the paddle in this frame: the overlap test of
  \<open>PongEngine_CheckPaddleCollision\<close>, on the ball as the wall step leaves it
  and the paddle as \<open>Paddle_Update\<close> leaves it.\<close>

definition ball_meets_paddle :: "frame_env \<Rightarrow> UserInput \<Rightarrow> PongEngine_t \<times> audio_t \<Rightarrow> bool" where
  "ball_meets_paddle env inp st =
     (let e3 = fst (PongEngine_CheckWallCollision env (after_move inp (fst st), snd st))
      in AABB_Collides (Ball_GetAABB (ball e3)) (Paddle_GetAABB (paddle e3)))"

text \<open>Both components of the velocity have absolute value \<open>m\<close>.\<close>

definition diagonal :: "real \<Rightarrow> Vector2D \<Rightarrow> bool" where
  "diagonal m v \<longleftrightarrow> \<bar>vec_x v\<bar> = m \<and> \<bar>vec_y v\<bar> = m"

subsection \<open>A concrete configuration\<close>

text \<open>The buzzer configuration of the usage example in Buzzer.h (1 MHz timer
  tick, 20 Hz to 20 kHz), before its first use, with no cue pending.\<close>

definition audio_startup :: audio_t where
  "audio_startup =
     \<lparr>buzzer_cfg =
        \<lparr>htim = \<lparr>tim_arr = 0, tim_ccr = 0, tim_cnt = 0, tim_pwm_running = False\<rparr>,
         tick_freq_hz = 1000000, min_freq_hz = 20, max_freq_hz = 20000,
         setup_done = 0, pwm_started = 0\<rparr>,
      buzzer_stop_tick = 0\<rparr>"

text \<open>A frame in which every read of the tick counter returns \<open>t\<close> and both
  random draws return \<open>r\<close>.\<close>

definition frame_at :: "uint32_t \<Rightarrow> uint32_t \<Rightarrow> frame_env" where
  "frame_at t r =
     \<lparr>tick_wall_y = t, tick_wall_x = t, tick_paddle = t, tick_buzzer = t,
      rng_dx = Some r, rng_dy = Some r\<rparr>"

definition stick_centred :: UserInput where
  "stick_centred = \<lparr>direction = CENTRE, magnitude = 0, angle = - 1\<rparr>"

text \<open>\<open>n\<close> frames with the stick centred, the tick counter at 0 and random
  draws of 20 (an offset of \<open>20 mod 41 - 20 = 0\<close> on both axes).\<close>

definition idle_frames :: "nat \<Rightarrow> (frame_env \<times> UserInput) list" where
  "idle_frames n = replicate n (frame_at 0 20, stick_centred)"

text \<open>Every call of the run is made with at least one life left.\<close>

fun alive_throughout :: "(frame_env \<times> UserInput) list \<Rightarrow> PongEngine_t \<times> audio_t \<Rightarrow> bool" where
  "alive_throughout [] st = True"
| "alive_throughout (f # fs) st =
     (lives (fst st) \<noteq> 0 \<and> alive_throughout fs (snd (PongEngine_Update (fst f) (snd f) st)))"

text \<open>A game with a paddle of 5 by 40 at \<open>(10, 100)\<close>, a ball of size 10 and ball
  speed 8, at kick-off with \<open>n\<close> lives, and the same game one frame before the
  ball leaves the screen at the top of the left edge.\<close>

definition engine_at_kickoff :: "uint8_t \<Rightarrow> PongEngine_t" where
  "engine_at_kickoff n = (PongEngine_Init 10 100 5 40 10 8)\<lparr>lives := n\<rparr>"

definition engine_before_miss :: "uint8_t \<Rightarrow> PongEngine_t" where
  "engine_before_miss n =
     \<lparr>ball = \<lparr>ball_x = 3, ball_y = 8, ball_size = 10,
              velocity = \<lparr>vec_x = - reset_speed_component, vec_y = - reset_speed_component\<rparr>\<rparr>,
      paddle = Paddle_Init 10 100 5 40 6, lives = n\<rparr>"

text \<open>A ball about to reach the top wall, away from the right wall.\<close>

definition engine_at_top :: PongEngine_t where
  "engine_at_top =
     \<lparr>ball = \<lparr>ball_x = 100, ball_y = 3, ball_size = 10,
              velocity = \<lparr>vec_x = 3, vec_y = - 3\<rparr>\<rparr>,
      paddle = Paddle_Init 10 100 5 40 6, lives = 4\<rparr>"

text \<open>A ball about to reach the top wall and the right wall in the same frame.\<close>

definition engine_at_corner :: PongEngine_t where
  "engine_at_corner =
     \<lparr>ball = \<lparr>ball_x = 232, ball_y = 3, ball_size = 10,
              velocity = \<lparr>vec_x = 3, vec_y = - 3\<rparr>\<rparr>,
      paddle = Paddle_Init 10 100 5 40 6, lives = 4\<rparr>"

text \<open>A paddle at the left edge of the screen and a ball that moves to
  \<open>x = -1\<close> in front of it.\<close>

definition engine_at_paddle :: PongEngine_t where
  "engine_at_paddle =
     \<lparr>ball = \<lparr>ball_x = 4, ball_y = 110, ball_size = 10,
              velocity = \<lparr>vec_x = - reset_speed_component, vec_y = reset_speed_component\<rparr>\<rparr>,
      paddle = Paddle_Init 0 100 5 40 6, lives = 4\<rparr>"

section \<open>Indexed framebuffer (LCD.h, LCD.c)\<close>

definition ST7789V2_WIDTH :: nat where "ST7789V2_WIDTH = 240"
definition ST7789V2_HEIGHT :: nat where "ST7789V2_HEIGHT = 240"
definition BUFFER_LENGTH :: nat where
  "BUFFER_LENGTH = ST7789V2_HEIGHT * ST7789V2_WIDTH div 2"

datatype LCD_Palette = PALETTE_DEFAULT | PALETTE_GREYSCALE | PALETTE_VINTAGE | PALETTE_CUSTOM

definition palette_default :: "uint16_t list" where
  "palette_default =
     [0x0000, 0xFFFF, 0x00F8, 0xE007, 0x1F00, 0x20FD, 0xE0FF, 0x18FC,
      0x0F78, 0x0F00, 0xA0FE, 0x5C91, 0x45A1, 0x1084, 0xFF07, 0x1FF8]"

definition palette_greyscale :: "uint16_t list" where
  "palette_greyscale =
     [0x0000, 0xC318, 0x4529, 0xC739, 0x2842, 0xAA52, 0x2C63, 0x8E73,
      0xEF7B, 0x718C, 0xD39C, 0x55AD, 0xF7BD, 0x9AD6, 0x3CE7, 0xFFFF]"

definition palette_vintage :: "uint16_t list" where
  "palette_vintage =
     [0x0000, 0xF39C, 0xFFFF, 0x26B9, 0x71E3, 0xE549, 0x24A3, 0x46EC,
      0x0DF7, 0x492A, 0x4344, 0x64A6, 0x2619, 0xB002, 0x1E35, 0xFDB6]"

definition palette_custom :: "uint16_t list" where
  "palette_custom =
     [0x0000, 0xF8A7, 0xA93D, 0x5FD8, 0xB6F5, 0x3804, 0xE8B9, 0x7D86,
      0xD9FD, 0x7D86, 0xFF07, 0x24A3, 0x5AF8, 0xBE44, 0xD244, 0xBE44]"

text \<open>The static state of LCD.c: the packed image buffer (\<open>BUFFER_LENGTH\<close>
  bytes, two 4-bit pixels per byte), the per-row change flags
  (\<open>ST7789V2_HEIGHT\<close> bytes) and the active palette.\<close>

record LCD_t =
  image_buffer :: "uint8_t list"
  track_changes :: "uint8_t list"
  colour_map :: "uint16_t list"

definition lcd_wf :: "LCD_t \<Rightarrow> bool" where
  "lcd_wf s \<longleftrightarrow>
     length (image_buffer s) = BUFFER_LENGTH \<and> length (track_changes s) = ST7789V2_HEIGHT"

text \<open>The state at program start: static storage is zero-initialised and the
  palette pointer starts at \<open>palette_default\<close>.\<close>

definition lcd_startup :: LCD_t where
  "lcd_startup =
     \<lparr>image_buffer = replicate BUFFER_LENGTH 0,
      track_changes = replicate ST7789V2_HEIGHT 0,
      colour_map = palette_default\<rparr>"

text \<open>An access beyond the end of one of the two arrays is undefined behaviour
  in C; the model reports it as a fault that names the array and the index.\<close>

datatype lcd_fault = Track_changes_overrun nat | Image_buffer_overrun nat

text \<open>\<open>LCD_Set_Pixel\<close> writes the row flag first, then computes the byte index
  \<^verbatim>\<open>(ST7789V2_WIDTH*y + x) >> 1\<close> (on \<open>int\<close>, stored into a \<open>uint16_t\<close>), and only
  then tests the coordinates.\<close>

definition LCD_Set_Pixel :: "LCD_t \<Rightarrow> uint16_t \<Rightarrow> uint16_t \<Rightarrow> uint8_t \<Rightarrow> lcd_fault + LCD_t" where
  "LCD_Set_Pixel s px py colour =
     (if ST7789V2_HEIGHT \<le> unat py then Inl (Track_changes_overrun (unat py))
      else
        let s1 = s\<lparr>track_changes := (track_changes s)[unat py := 1]\<rparr>;
            index = (word_of_nat ((ST7789V2_WIDTH * unat py + unat px) div 2) :: uint16_t);
            i = unat index
        in if unat px < ST7789V2_WIDTH \<and> unat py < ST7789V2_HEIGHT
             then
               if BUFFER_LENGTH \<le> i then Inl (Image_buffer_overrun i)
               else if px AND 1 \<noteq> 0
                 then Inr (s1\<lparr>image_buffer := (image_buffer s1)
                              [i := push_bit 4 colour OR (image_buffer s1 ! i AND 0x0F)]\<rparr>)
               else Inr (s1\<lparr>image_buffer := (image_buffer s1)
                              [i := colour OR (image_buffer s1 ! i AND 0xF0)]\<rparr>)
           else Inr s1)"

text \<open>\<open>LCD_Get_Pixel\<close> computes \<^verbatim>\<open>uint16_t pixel = x * y\<close> and reads the nibble of
  byte \<^verbatim>\<open>pixel >> 1\<close> selected by the lowest bit of \<open>pixel\<close>. It has no test of
  the coordinates. (The product is computed on \<open>int\<close> and stored into 16 bits; it
  exceeds the range of \<open>int\<close> only for coordinates far outside the screen.)\<close>

definition LCD_Get_Pixel :: "LCD_t \<Rightarrow> uint16_t \<Rightarrow> uint16_t \<Rightarrow> lcd_fault + uint8_t" where
  "LCD_Get_Pixel s px py =
     (let pixel = px * py;
          i = unat (drop_bit 1 pixel)
      in if BUFFER_LENGTH \<le> i then Inl (Image_buffer_overrun i)
         else if pixel AND 1 \<noteq> 0 then Inr (drop_bit 4 (image_buffer s ! i AND 0xF0))
         else Inr (image_buffer s ! i AND 0x0F))"

definition palette_table :: "LCD_Palette \<Rightarrow> uint16_t list" where
  "palette_table p =
     (case p of
        PALETTE_GREYSCALE \<Rightarrow> palette_greyscale
      | PALETTE_VINTAGE \<Rightarrow> palette_vintage
      | PALETTE_CUSTOM \<Rightarrow> palette_custom
      | PALETTE_DEFAULT \<Rightarrow> palette_default)"

text \<open>The loop \<^verbatim>\<open>for (y = 0; y < ST7789V2_HEIGHT; y++) track_changes[y] = 1\<close>.\<close>

definition mark_all_rows :: "uint8_t list \<Rightarrow> uint8_t list" where
  "mark_all_rows tc = fold (\<lambda>r t. t[r := 1]) [0..<ST7789V2_HEIGHT] tc"

definition LCD_Set_Palette :: "LCD_t \<Rightarrow> LCD_Palette \<Rightarrow> LCD_t" where
  "LCD_Set_Palette s p =
     s\<lparr>colour_map := palette_table p, track_changes := mark_all_rows (track_changes s)\<rparr>"

text \<open>The palette index stored for the pixel in column \<open>cx\<close> of row \<open>cy\<close>, in the
  layout that \<open>LCD_Refresh\<close> reads: byte \<open>120 * cy + cx div 2\<close>, low nibble for
  an even column and high nibble for an odd one.\<close>

definition pixel_cell :: "LCD_t \<Rightarrow> nat \<Rightarrow> nat \<Rightarrow> uint8_t" where
  "pixel_cell s cx cy =
     (let double_pixel = image_buffer s ! (120 * cy + cx div 2)
      in if even cx then double_pixel AND 0x0F else drop_bit 4 double_pixel)"

section \<open>The float literals of the source\<close>

text \<open>The constants that stand for \<^verbatim>\<open>0.707f\<close>, \<^verbatim>\<open>0.05f\<close> and \<^verbatim>\<open>0.03f\<close> are the
  decimal literals rounded to single precision, and the products of
  \<^verbatim>\<open>0.707f\<close> with 8 and 16 are exact.\<close>

lemma f32_literals:
  "f32_round (707 / 1000) = f32_0_707"
  "f32_round (5 / 100) = f32_0_05"
  "f32_round (3 / 100) = f32_0_03"
  by (simp_all add: f32_round_def f32_exponent_def f32_0_707_def f32_0_05_def f32_0_03_def
      eval_nat_numeral round_half_even_def Let_def)

lemma f32_products:
  "f32_mul 8 f32_0_707 = 8 * f32_0_707"
  "f32_mul 16 f32_0_707 = 16 * f32_0_707"
  by (simp_all add: f32_mul_def f32_round_def f32_exponent_def f32_0_707_def
      eval_nat_numeral round_half_even_def Let_def)

section \<open>Properties of the joystick direction\<close>

lemma GetDirection_centre:
  "ang < 0 \<or> mag < f32_0_05 \<Longrightarrow> Joystick_GetDirection ang mag = CENTRE"
  by (simp add: Joystick_GetDirection_def)

lemma bucket_floor:
  fixes a :: real
  assumes "45 * real k - 22.5 \<le> a" "a < 45 * real k + 22.5"
  shows "\<lfloor>(a + 22.5) / 45\<rfloor> = int k"
proof -
  have "real k \<le> (a + 22.5) / 45" using assms by (simp add: field_simps)
  moreover have "(a + 22.5) / 45 < real k + 1" using assms by (simp add: field_simps)
  ultimately show ?thesis by (simp add: floor_eq_iff)
qed

lemma GetDirection_bucket:
  assumes "f32_0_05 \<le> mag" "0 \<le> ang" "ang < 360"
  shows "Joystick_GetDirection ang mag = compass_point (bucket_of_angle ang)"
proof -
  consider "ang < 22.5" | "22.5 \<le> ang" "ang < 67.5" | "67.5 \<le> ang" "ang < 112.5"
    | "112.5 \<le> ang" "ang < 157.5" | "157.5 \<le> ang" "ang < 202.5"
    | "202.5 \<le> ang" "ang < 247.5" | "247.5 \<le> ang" "ang < 292.5"
    | "292.5 \<le> ang" "ang < 337.5" | "337.5 \<le> ang"
    by linarith
  then show ?thesis
  proof cases
    case 1
    then have "\<lfloor>(ang + 22.5) / 45\<rfloor> = int 0" using assms by (intro bucket_floor) simp_all
    then show ?thesis using 1 assms
      by (simp add: Joystick_GetDirection_def compass_point_def bucket_of_angle_def)
  next
    case 2
    then have "\<lfloor>(ang + 22.5) / 45\<rfloor> = int 1" using assms by (intro bucket_floor) simp_all
    then show ?thesis using 2 assms
      by (simp add: Joystick_GetDirection_def compass_point_def bucket_of_angle_def)
  next
    case 3
    then have "\<lfloor>(ang + 22.5) / 45\<rfloor> = int 2" using assms by (intro bucket_floor) simp_all
    then show ?thesis using 3 assms
      by (simp add: Joystick_GetDirection_def compass_point_def bucket_of_angle_def)
  next
    case 4
    then have "\<lfloor>(ang + 22.5) / 45\<rfloor> = int 3" using assms by (intro bucket_floor) simp_all
    then show ?thesis using 4 assms
      by (simp add: Joystick_GetDirection_def compass_point_def bucket_of_angle_def)
  next
    case 5
    then have "\<lfloor>(ang + 22.5) / 45\<rfloor> = int 4" using assms by (intro bucket_floor) simp_all
    then show ?thesis using 5 assms
      by (simp add: Joystick_GetDirection_def compass_point_def bucket_of_angle_def)
  next
    case 6
    then have "\<lfloor>(ang + 22.5) / 45\<rfloor> = int 5" using assms by (intro bucket_floor) simp_all
    then show ?thesis using 6 assms
      by (simp add: Joystick_GetDirection_def compass_point_def bucket_of_angle_def)
  next
    case 7
    then have "\<lfloor>(ang + 22.5) / 45\<rfloor> = int 6" using assms by (intro bucket_floor) simp_all
    then show ?thesis using 7 assms
      by (simp add: Joystick_GetDirection_def compass_point_def bucket_of_angle_def)
  next
    case 8
    then have "\<lfloor>(ang + 22.5) / 45\<rfloor> = int 7" using assms by (intro bucket_floor) simp_all
    then show ?thesis using 8 assms
      by (simp add: Joystick_GetDirection_def compass_point_def bucket_of_angle_def)
  next
    case 9
    then have "\<lfloor>(ang + 22.5) / 45\<rfloor> = int 8" using assms by (intro bucket_floor) simp_all
    then show ?thesis using 9 assms
      by (simp add: Joystick_GetDirection_def compass_point_def bucket_of_angle_def)
  qed
qed

lemma bucket_values:
  "bucket_of_angle 0 = 0" "bucket_of_angle 22 = 0" "bucket_of_angle 44 = 1"
  "bucket_of_angle 46 = 1" "bucket_of_angle 359 = 0"
  by (simp_all add: bucket_of_angle_def)

text \<open>An angle of 44 degrees at full deflection is not reported as North: it
  lies in the sector from 22.5 to 67.5 degrees.\<close>

theorem GetDirection_44_is_not_N: "Joystick_GetDirection 44 1 \<noteq> N"
  by (simp add: Joystick_GetDirection_def f32_0_05_def)

text \<open>Claim C6, amended. With a magnitude of at least \<^verbatim>\<open>0.05f\<close> an angle in
  \<open>[0, 360)\<close> is mapped to the compass point whose 45-degree sector, centred on
  the point, contains it: sector \<open>k\<close> covers \<open>[45 k - 22.5, 45 k + 22.5)\<close>, so 0,
  22 and 359 degrees give N while 44 and 46 degrees give NE. With a magnitude
  below \<^verbatim>\<open>0.05f\<close> (such as 0.03) every angle gives CENTRE.\<close>

theorem Joystick_GetDirection_buckets:
  "(f32_0_05 \<le> mag \<and> 0 \<le> ang \<and> ang < 360 \<longrightarrow>
      Joystick_GetDirection ang mag = compass_point (bucket_of_angle ang)) \<and>
   (mag < f32_0_05 \<longrightarrow> Joystick_GetDirection ang mag = CENTRE)"
  using GetDirection_bucket [of mag ang] GetDirection_centre [of ang mag] by blast

theorem Joystick_GetDirection_buckets_witness:
  "Joystick_GetDirection 0 1 = N \<and> Joystick_GetDirection 22 1 = N \<and>
   Joystick_GetDirection 44 1 = NE \<and> Joystick_GetDirection 46 1 = NE \<and>
   Joystick_GetDirection 359 1 = N \<and> Joystick_GetDirection 44 f32_0_03 = CENTRE"
  using Joystick_GetDirection_buckets [of 1 0] Joystick_GetDirection_buckets [of 1 22]
    Joystick_GetDirection_buckets [of 1 44] Joystick_GetDirection_buckets [of 1 46]
    Joystick_GetDirection_buckets [of 1 359] Joystick_GetDirection_buckets [of f32_0_03 44]
  by (simp add: bucket_values compass_point_def f32_0_05_def f32_0_03_def)

section \<open>Properties of the paddle\<close>

lemma sint16_id: "- 32768 \<le> i \<Longrightarrow> i \<le> 32767 \<Longrightarrow> sint (word_of_int i :: 16 word) = i"
  by (simp add: sint_sbintrunc' signed_take_bit_int_eq_self)

lemma sint16_sub:
  "- 32768 \<le> sint a - sint b \<Longrightarrow> sint a - sint b \<le> 32767 \<Longrightarrow>
   sint (a - b :: 16 word) = sint a - sint b"
  by (simp add: sint_word_ariths signed_take_bit_int_eq_self)

lemma sint16_add:
  "- 32768 \<le> sint a + sint b \<Longrightarrow> sint a + sint b \<le> 32767 \<Longrightarrow>
   sint (a + b :: 16 word) = sint a + sint b"
  by (simp add: sint_word_ariths signed_take_bit_int_eq_self)

lemma Paddle_Update_frame:
  "pad_x (Paddle_Update p i) = pad_x p \<and> pad_width (Paddle_Update p i) = pad_width p \<and>
   pad_height (Paddle_Update p i) = pad_height p \<and>
   pad_speed (Paddle_Update p i) = pad_speed p \<and>
   pad_score (Paddle_Update p i) = pad_score p"
  by (simp add: Paddle_Update_def Let_def)

lemma Paddle_Update_step:
  assumes "paddle_no_wrap p"
  shows "paddle_on_screen (Paddle_Update p i)"
proof -
  let ?h = "sint (pad_height p)"
  let ?y = "sint (pad_y p)"
  let ?s = "sint (pad_speed p)"
  from assms have h: "0 \<le> ?h" "?h \<le> 240" and s: "\<bar>?s\<bar> \<le> 32527"
    and b: "\<bar>?y\<bar> + \<bar>?s\<bar> + ?h \<le> 32767"
    by (simp_all add: paddle_no_wrap_def)
  have sub: "sint (pad_y p - pad_speed p) = ?y - ?s"
    using h s b by (intro sint16_sub) linarith+
  have add: "sint (pad_y p + pad_speed p) = ?y + ?s"
    using h s b by (intro sint16_add) linarith+
  have bot: "\<And>m. 0 \<le> m \<Longrightarrow> m + ?h \<le> 32767 \<Longrightarrow>
      sint (word_of_int (m + ?h) :: 16 word) = m + ?h"
    using h by (intro sint16_id) linarith+
  have top: "sint (word_of_int (240 - ?h) :: 16 word) = 240 - ?h"
    using h by (intro sint16_id) linarith+
  show ?thesis
    using h s b sub add top bot [of "?y - ?s"] bot [of "?y + ?s"] bot [of "?y"] bot [of 0]
    by (auto simp add: Paddle_Update_def Let_def paddle_on_screen_def SCREEN_HEIGHT_def)
qed

lemma paddle_no_wrap_preserved:
  assumes "paddle_no_wrap p"
  shows "paddle_no_wrap (Paddle_Update p i)"
proof -
  have on: "paddle_on_screen (Paddle_Update p i)" using assms by (rule Paddle_Update_step)
  have fr: "pad_height (Paddle_Update p i) = pad_height p"
    "pad_speed (Paddle_Update p i) = pad_speed p"
    using Paddle_Update_frame [of p i] by simp_all
  show ?thesis using assms on fr
    by (simp add: paddle_no_wrap_def paddle_on_screen_def SCREEN_HEIGHT_def)
qed

lemma paddle_run_frame:
  "pad_x (foldl Paddle_Update p ins) = pad_x p \<and>
   pad_width (foldl Paddle_Update p ins) = pad_width p \<and>
   pad_height (foldl Paddle_Update p ins) = pad_height p \<and>
   pad_speed (foldl Paddle_Update p ins) = pad_speed p \<and>
   pad_score (foldl Paddle_Update p ins) = pad_score p"
  by (induction ins arbitrary: p) (simp_all add: Paddle_Update_frame)

lemma paddle_run_no_wrap:
  "paddle_no_wrap p \<Longrightarrow> paddle_no_wrap (foldl Paddle_Update p ins)"
  by (induction ins arbitrary: p) (simp_all add: paddle_no_wrap_preserved)

text \<open>A paddle taller than the screen: with height 300 at \<open>y = 0\<close> the bottom
  clamp moves the top edge to \<open>240 - 300 = -60\<close>.\<close>

theorem Paddle_Update_tall_paddle:
  "\<not> (0 \<le> sint (pad_y (Paddle_Update (Paddle_Init 10 0 5 300 6)
                          \<lparr>direction = CENTRE, magnitude = 0, angle = - 1\<rparr>)))"
  by (simp add: Paddle_Update_def Paddle_Init_def SCREEN_HEIGHT_def)

text \<open>With a height that fits the screen, a bottom edge beyond the \<open>int16_t\<close>
  range wraps to a negative number and escapes the bottom clamp.\<close>

lemma Paddle_Update_bottom_wraps:
  "sint (pad_y (Paddle_Update (Paddle_Init 10 32700 5 100 6)
                  \<lparr>direction = CENTRE, magnitude = 0, angle = - 1\<rparr>)) = 32700"
  by (simp add: Paddle_Update_def Paddle_Init_def SCREEN_HEIGHT_def)

text \<open>Claim C2, amended. For every paddle whose height lies between 0 and the
  screen height and whose 16-bit position arithmetic cannot wrap
  (\<open>|speed| \<le> 32527\<close> and \<open>|y| + |speed| + height \<le> 32767\<close>), and for every
  non-empty sequence of \<open>Paddle_Update\<close> calls with arbitrary inputs, the paddle
  ends with \<open>0 \<le> y\<close> and \<open>y + height \<le> 240\<close>; width and height are the initial
  ones. (Every prefix of a sequence is a sequence, so the bounds hold after
  each update.)\<close>

theorem Paddle_Update_clamped:
  assumes "paddle_no_wrap p" and "ins \<noteq> []"
  shows "paddle_on_screen (foldl Paddle_Update p ins) \<and>
         pad_width (foldl Paddle_Update p ins) = pad_width p \<and>
         pad_height (foldl Paddle_Update p ins) = pad_height p"
proof -
  from \<open>ins \<noteq> []\<close> obtain js i where ins: "ins = js @ [i]"
    by (cases ins rule: rev_cases) auto
  have "paddle_no_wrap (foldl Paddle_Update p js)"
    using assms(1) by (rule paddle_run_no_wrap)
  then have "paddle_on_screen (Paddle_Update (foldl Paddle_Update p js) i)"
    by (rule Paddle_Update_step)
  then show ?thesis using paddle_run_frame [of p ins] by (simp add: ins)
qed

theorem Paddle_Update_clamped_witness:
  "paddle_no_wrap (Paddle_Init 10 100 5 40 6) \<and>
   [\<lparr>direction = S, magnitude = 1, angle = 180\<rparr>,
    \<lparr>direction = N, magnitude = 1, angle = 0\<rparr>] \<noteq> [] \<and>
   paddle_on_screen (foldl Paddle_Update (Paddle_Init 10 100 5 40 6)
      [\<lparr>direction = S, magnitude = 1, angle = 180\<rparr>,
       \<lparr>direction = N, magnitude = 1, angle = 0\<rparr>])"
proof -
  have h: "paddle_no_wrap (Paddle_Init 10 100 5 40 6)"
    by (simp add: paddle_no_wrap_def Paddle_Init_def)
  show ?thesis
    using h Paddle_Update_clamped [OF h,
      of "[\<lparr>direction = S, magnitude = 1, angle = 180\<rparr>,
           \<lparr>direction = N, magnitude = 1, angle = 0\<rparr>]"]
    by simp
qed

section \<open>Properties of the audio cue\<close>

lemma sint16_range: "- 32768 \<le> sint (w :: 16 word) \<and> sint w \<le> 32767"
  using sint_ge [of w] sint_lt [of w] by simp

lemma sint32_id:
  "- 2147483648 \<le> i \<Longrightarrow> i \<le> 2147483647 \<Longrightarrow> sint (word_of_int i :: 32 word) = i"
  by (simp add: sint_sbintrunc' signed_take_bit_int_eq_self)

lemma Beep_stop_tick: "buzzer_stop_tick (PongEngine_Beep t f au) = t + 40"
  by (simp add: PongEngine_Beep_def BUZZER_BEEP_MS_def)

lemma Beep_wall_started:
  "pwm_started (buzzer_cfg (PongEngine_Beep t BUZZER_WALL_FREQ_HZ au)) \<noteq> 0"
  by (simp add: PongEngine_Beep_def buzzer_tone_def buzzer_init_def BUZZER_WALL_FREQ_HZ_def
      BUZZER_VOLUME_def Let_def)

text \<open>A trigger starts the tone, and a second trigger leaves the state that it
  alone would have left: deadline and frequency of the first are replaced.\<close>

lemma Beep_started:
  "f \<noteq> 0 \<Longrightarrow> pwm_started (buzzer_cfg (PongEngine_Beep t f au)) \<noteq> 0"
  by (simp add: PongEngine_Beep_def buzzer_tone_def buzzer_init_def BUZZER_VOLUME_def Let_def)

lemma tone_twice:
  "f1 \<noteq> 0 \<Longrightarrow> f2 \<noteq> 0 \<Longrightarrow> v \<noteq> 0 \<Longrightarrow>
   buzzer_tone (buzzer_tone cfg f1 v) f2 v = buzzer_tone cfg f2 v"
  by (simp add: buzzer_tone_def buzzer_init_def Let_def)

lemma last_trigger_wins:
  "f1 \<noteq> 0 \<Longrightarrow> f2 \<noteq> 0 \<Longrightarrow>
   PongEngine_Beep t2 f2 (PongEngine_Beep t1 f1 au) = PongEngine_Beep t2 f2 au"
  by (simp add: PongEngine_Beep_def tone_twice BUZZER_VOLUME_def)

lemma cue_elapsed:
  "sint ((t + word_of_nat d) - (t + 40) :: 32 word) = int d - 40" if "d < 2147483688"
proof -
  have "(t + word_of_nat d) - (t + 40) = (word_of_int (int d - 40) :: 32 word)" by simp
  moreover have "sint (word_of_int (int d - 40) :: 32 word) = int d - 40"
    using that by (intro sint32_id) linarith+
  ultimately show ?thesis by simp
qed

text \<open>A tick less than 40 ms after the trigger leaves the cue as it is.\<close>

lemma cue_kept_before_deadline:
  assumes "d < 40"
  shows "PongEngine_UpdateBuzzer (t + word_of_nat d) (PongEngine_Beep t f au) =
           PongEngine_Beep t f au"
proof -
  have "sint ((t + word_of_nat d) - (t + 40) :: 32 word) = int d - 40"
    using assms by (intro cue_elapsed) simp
  then show ?thesis using assms
    by (simp add: PongEngine_UpdateBuzzer_def PongEngine_Beep_def BUZZER_BEEP_MS_def)
qed

text \<open>A tick from 40 ms after the trigger on (and less than \<open>2^31\<close> ms after the
  deadline) switches the buzzer off, provided that the deadline is not the
  number 0.\<close>

lemma cue_silenced_from_deadline:
  assumes "40 \<le> d" "d < 2147483688" "t + 40 \<noteq> 0"
  shows "PongEngine_UpdateBuzzer (t + word_of_nat d) (PongEngine_Beep t f au) =
           \<lparr>buzzer_cfg = buzzer_off (buzzer_cfg (PongEngine_Beep t f au)),
            buzzer_stop_tick = 0\<rparr>"
proof -
  have "sint ((t + word_of_nat d) - (t + 40) :: 32 word) = int d - 40"
    using assms by (intro cue_elapsed) simp
  then show ?thesis using assms
    by (simp add: PongEngine_UpdateBuzzer_def PongEngine_Beep_def BUZZER_BEEP_MS_def)
qed

text \<open>Claim C10, at the failing input. A cue triggered when the tick counter
  reads \<open>0xFFFFFFD8\<close> (40 ms before it wraps) records the deadline 0, which
  \<open>PongEngine_UpdateBuzzer\<close> reads as "no cue pending": the tone is on, and no
  tick, at whatever time, switches it off.\<close>

theorem cue_with_deadline_zero_is_never_silenced:
  "buzzer_stop_tick (PongEngine_Beep 0xFFFFFFD8 BUZZER_WALL_FREQ_HZ audio_startup) = 0 \<and>
   pwm_started (buzzer_cfg (PongEngine_Beep 0xFFFFFFD8 BUZZER_WALL_FREQ_HZ audio_startup)) = 1 \<and>
   (\<forall>now. PongEngine_UpdateBuzzer now
             (PongEngine_Beep 0xFFFFFFD8 BUZZER_WALL_FREQ_HZ audio_startup)
        = PongEngine_Beep 0xFFFFFFD8 BUZZER_WALL_FREQ_HZ audio_startup)"
  by (simp add: PongEngine_Beep_def PongEngine_UpdateBuzzer_def BUZZER_BEEP_MS_def
      buzzer_tone_def buzzer_init_def BUZZER_WALL_FREQ_HZ_def BUZZER_VOLUME_def Let_def
      audio_startup_def)

section \<open>Properties of the wall collision\<close>

lemma wall_step_frame:
  "ball_size (ball (fst (PongEngine_CheckWallCollision env (e, au)))) = ball_size (ball e) \<and>
   paddle (fst (PongEngine_CheckWallCollision env (e, au))) = paddle e \<and>
   lives (fst (PongEngine_CheckWallCollision env (e, au))) = lives e"
  by (simp add: PongEngine_CheckWallCollision_def Let_def Ball_SetVelocity_def split_def)

lemma wall_step_keeps_left:
  assumes "sint (ball_x (ball e)) < 0"
  shows "sint (ball_x (ball (fst (PongEngine_CheckWallCollision env (e, au))))) < 0"
proof -
  let ?x = "sint (ball_x (ball e))" and ?s = "sint (ball_size (ball e))"
  have r: "?s \<le> 32767" using sint16_range [of "ball_size (ball e)"] by simp
  have "?x + ?s \<ge> 240 \<Longrightarrow> sint (word_of_int (240 - ?s - 2) :: 16 word) = 240 - ?s - 2"
    using assms r by (intro sint16_id) linarith+
  then show ?thesis using assms
    by (auto simp add: PongEngine_CheckWallCollision_def Let_def Ball_SetVelocity_def split_def
        SCREEN_WIDTH_def)
qed

lemma top_moved:
  "ball (after_move stick_centred engine_at_top) =
     \<lparr>ball_x = 103, ball_y = 0, ball_size = 10, velocity = \<lparr>vec_x = 3, vec_y = - 3\<rparr>\<rparr>"
  by (simp add: engine_at_top_def after_move_def stick_centred_def Paddle_Update_def
      Paddle_Init_def Ball_Update_def f32_to_int16_def Let_def SCREEN_HEIGHT_def)

text \<open>Away from the right wall the top-wall branch is the only one that runs.
  For every engine state with \<open>ball.y \<le> 0\<close> at the wall step: afterwards
  \<open>ball.y = 2\<close> and the buzzer plays; if \<open>ball.x + size < 240\<close> the velocity is
  \<open>(vx, -vy)\<close> and the audio state is that of one wall cue (1200 Hz); otherwise
  the right-wall branch runs as well, the horizontal velocity is \<open>-vx\<close> and a
  second wall cue follows the first.\<close>

lemma top_wall_reflection:
  assumes "sint (ball_y (ball e)) \<le> 0"
  shows "let st' = PongEngine_CheckWallCollision env (e, au); e' = fst st'; au' = snd st'
         in ball_y (ball e') = 2 \<and> 0 \<le> sint (ball_y (ball e')) \<and>
            pwm_started (buzzer_cfg au') \<noteq> 0 \<and>
            (if sint (ball_x (ball e)) + sint (ball_size (ball e)) < SCREEN_WIDTH
             then velocity (ball e') =
                    \<lparr>vec_x = vec_x (velocity (ball e)), vec_y = - vec_y (velocity (ball e))\<rparr> \<and>
                  au' = PongEngine_Beep (tick_wall_y env) BUZZER_WALL_FREQ_HZ au
             else vec_x (velocity (ball e')) = - vec_x (velocity (ball e)) \<and>
                  au' = PongEngine_Beep (tick_wall_x env) BUZZER_WALL_FREQ_HZ
                          (PongEngine_Beep (tick_wall_y env) BUZZER_WALL_FREQ_HZ au))"
  using assms
  by (simp add: PongEngine_CheckWallCollision_def Let_def Ball_SetVelocity_def
      Ball_GetVelocity_def split_def Beep_wall_started)

lemma top_wall_reflection_example:
  "sint (ball_y (ball (after_move stick_centred engine_at_top))) \<le> 0 \<and>
   ball_y (ball (fst (PongEngine_CheckWallCollision (frame_at 7 20)
       (after_move stick_centred engine_at_top, audio_startup)))) = 2 \<and>
   velocity (ball (fst (PongEngine_CheckWallCollision (frame_at 7 20)
       (after_move stick_centred engine_at_top, audio_startup)))) = \<lparr>vec_x = 3, vec_y = 3\<rparr> \<and>
   buzzer_stop_tick (snd (PongEngine_CheckWallCollision (frame_at 7 20)
       (after_move stick_centred engine_at_top, audio_startup))) = 47"
proof -
  have h: "sint (ball_y (ball (after_move stick_centred engine_at_top))) \<le> 0"
    by (simp add: top_moved)
  show ?thesis
    using h top_wall_reflection [OF h, of "frame_at 7 20" audio_startup]
    by (simp add: Let_def top_moved SCREEN_WIDTH_def frame_at_def Beep_stop_tick)
qed

text \<open>In every state in which the ball touches the top wall and the right wall
  in the same wall step, the step ends with the velocity \<open>(-vx, vy)\<close>: the
  right-wall branch writes \<open>(-vel.x, vel.y)\<close> from the copy of the velocity
  read before the top-wall branch ran, which undoes the vertical inversion
  that branch had written. The same holds in the bottom right corner.\<close>

lemma corner_keeps_vy:
  assumes "sint (ball_y (ball e)) \<le> 0"
    and "sint (ball_x (ball e)) + sint (ball_size (ball e)) \<ge> SCREEN_WIDTH"
  shows "velocity (ball (fst (PongEngine_CheckWallCollision env (e, au)))) =
           \<lparr>vec_x = - vec_x (velocity (ball e)), vec_y = vec_y (velocity (ball e))\<rparr>"
  using assms
  by (simp add: PongEngine_CheckWallCollision_def Let_def Ball_SetVelocity_def
      Ball_GetVelocity_def split_def)

lemma corner_moved:
  "ball (after_move stick_centred engine_at_corner) =
     \<lparr>ball_x = 235, ball_y = 0, ball_size = 10, velocity = \<lparr>vec_x = 3, vec_y = - 3\<rparr>\<rparr>"
  by (simp add: engine_at_corner_def after_move_def stick_centred_def Paddle_Update_def
      Paddle_Init_def Ball_Update_def f32_to_int16_def Let_def SCREEN_HEIGHT_def)

text \<open>Claim C1, at the failing input. A ball of size 10 that the position
  update moves to \<open>(235, 0)\<close> with velocity \<open>(3, -3)\<close> has its top edge at the top
  wall when the wall collision is checked. The wall step leaves it with the
  velocity \<open>(-3, -3)\<close>: the vertical velocity is not inverted (it is \<open>-3\<close>, not
  \<open>3\<close>), and the ball keeps moving up from \<open>y = 2\<close>.\<close>

theorem top_right_corner_keeps_vy:
  "ball (after_move stick_centred engine_at_corner) =
     \<lparr>ball_x = 235, ball_y = 0, ball_size = 10, velocity = \<lparr>vec_x = 3, vec_y = - 3\<rparr>\<rparr> \<and>
   sint (ball_y (ball (after_move stick_centred engine_at_corner))) \<le> 0 \<and>
   velocity (ball (fst (PongEngine_CheckWallCollision (frame_at 0 20)
       (after_move stick_centred engine_at_corner, audio_startup)))) =
     \<lparr>vec_x = - 3, vec_y = - 3\<rparr> \<and>
   ball_y (ball (fst (PongEngine_CheckWallCollision (frame_at 0 20)
       (after_move stick_centred engine_at_corner, audio_startup)))) = 2"
  by (simp add: corner_moved PongEngine_CheckWallCollision_def Let_def
      SCREEN_HEIGHT_def SCREEN_WIDTH_def Ball_SetVelocity_def Ball_GetVelocity_def split_def)

section \<open>Properties of the goal check\<close>

lemma after_move_frame:
  "ball_size (ball (after_move inp e)) = ball_size (ball e) \<and> lives (after_move inp e) = lives e"
  by (simp add: after_move_def Let_def Ball_Update_def)

lemma Random_U16_41: "sint (Random_U16 d 41) \<ge> 0 \<and> sint (Random_U16 d 41) \<le> 40"
proof (cases d)
  case None
  then show ?thesis by (simp add: Random_U16_def)
next
  case (Some r)
  have "unat r mod 41 < 41" by simp
  then have "unat r mod 41 \<le> 40" by linarith
  moreover have "sint (word_of_nat (unat r mod 41) :: 16 word) = int (unat r mod 41)"
  proof -
    have "sint (word_of_int (int (unat r mod 41)) :: 16 word) = int (unat r mod 41)"
      using \<open>unat r mod 41 \<le> 40\<close> by (intro sint16_id) linarith+
    then show ?thesis by simp
  qed
  ultimately show ?thesis using Some by (simp add: Random_U16_def)
qed

lemma goal_reset_position:
  fixes sz :: int16_t and d :: "uint32_t option"
  defines "cx \<equiv> c_div (240 - sint sz) 2"
  defines "dx \<equiv> sint (Random_U16 d 41) - 20"
  shows "sint ((word_of_int cx :: int16_t) + word_of_int dx) = cx + dx"
proof -
  have r: "- 32768 \<le> sint sz" "sint sz \<le> 32767" using sint16_range [of sz] by simp_all
  have "\<bar>cx\<bar> \<le> \<bar>240 - sint sz\<bar> div 2" unfolding cx_def
    by (simp add: c_div_def abs_mult abs_sgn_eq)
  then have c: "\<bar>cx\<bar> \<le> 16504" using r by linarith
  have d: "- 20 \<le> dx" "dx \<le> 20" using Random_U16_41 [of d] by (simp_all add: dx_def)
  have 1: "sint (word_of_int cx :: int16_t) = cx" using c by (intro sint16_id) linarith+
  have 2: "sint (word_of_int dx :: int16_t) = dx" using d by (intro sint16_id) linarith+
  show ?thesis using c d by (subst sint16_add) (simp_all add: 1 2)
qed

lemma reset_val: "reset_speed_component = 2965373 / 524288"
  by (simp add: reset_speed_component_def f32_mul_def f32_round_def f32_exponent_def
      f32_0_707_def eval_nat_numeral round_half_even_def Let_def)

lemma reset_pos: "0 < reset_speed_component"
  by (simp add: reset_val)

lemma CheckGoal_scored:
  assumes "sint (ball_x (ball e)) < 0"
  shows "lives (PongEngine_CheckGoal env e) = lives e - 1 \<and>
     sint (ball_x (ball (PongEngine_CheckGoal env e))) =
        c_div (240 - sint (ball_size (ball e))) 2 + (sint (Random_U16 (rng_dx env) 41) - 20) \<and>
     sint (ball_y (ball (PongEngine_CheckGoal env e))) =
        c_div (240 - sint (ball_size (ball e))) 2 + (sint (Random_U16 (rng_dy env) 41) - 20) \<and>
     velocity (ball (PongEngine_CheckGoal env e)) =
        \<lparr>vec_x = reset_speed_component, vec_y = reset_speed_component\<rparr> \<and>
     ball_size (ball (PongEngine_CheckGoal env e)) = ball_size (ball e) \<and>
     paddle (PongEngine_CheckGoal env e) = paddle e"
  using assms goal_reset_position [of "ball_size (ball e)" "rng_dx env"]
    goal_reset_position [of "ball_size (ball e)" "rng_dy env"]
  by (simp add: PongEngine_CheckGoal_def Let_def Ball_SetPos_def Ball_SetVelocity_def
      SCREEN_WIDTH_def SCREEN_HEIGHT_def BALL_RESET_OFFSET_def)

lemma after_collisions_no_hit:
  assumes "\<not> ball_meets_paddle env inp st"
  shows "after_collisions env inp st =
           PongEngine_CheckWallCollision env (after_move inp (fst st), snd st)"
  using assms
  by (simp add: after_collisions_def ball_meets_paddle_def PongEngine_CheckPaddleCollision_def
      Let_def)

lemma Update_engine:
  "fst (snd (PongEngine_Update env inp st)) =
     PongEngine_CheckGoal env (fst (after_collisions env inp st))"
  by (simp add: PongEngine_Update_def Let_def)

lemma paddle_moved:
  "after_move stick_centred engine_at_paddle =
     \<lparr>ball = \<lparr>ball_x = - 1, ball_y = 115, ball_size = 10,
              velocity = \<lparr>vec_x = - reset_speed_component, vec_y = reset_speed_component\<rparr>\<rparr>,
      paddle = Paddle_Init 0 100 5 40 6, lives = 4\<rparr>"
  by (simp add: engine_at_paddle_def after_move_def stick_centred_def Paddle_Update_def
      Paddle_Init_def Ball_Update_def f32_to_int16_def Let_def SCREEN_HEIGHT_def reset_val)

lemma before_miss_moved:
  "after_move stick_centred (engine_before_miss n) =
     \<lparr>ball = \<lparr>ball_x = - 2, ball_y = 3, ball_size = 10,
              velocity = \<lparr>vec_x = - reset_speed_component, vec_y = - reset_speed_component\<rparr>\<rparr>,
      paddle = Paddle_Init 10 100 5 40 6, lives = n\<rparr>"
  by (simp add: engine_before_miss_def after_move_def stick_centred_def Paddle_Update_def
      Paddle_Init_def Ball_Update_def f32_to_int16_def Let_def SCREEN_HEIGHT_def reset_val)

lemma before_miss_no_hit:
  "\<not> ball_meets_paddle (frame_at 0 20) stick_centred (engine_before_miss n, au)"
  by (simp add: ball_meets_paddle_def before_miss_moved PongEngine_CheckWallCollision_def Let_def
      Ball_GetVelocity_def Ball_SetVelocity_def Ball_GetAABB_def Paddle_GetAABB_def
      AABB_Collides_def Paddle_Init_def SCREEN_HEIGHT_def SCREEN_WIDTH_def split_def)

text \<open>With four lives, a ball that the position update moves to \<open>x = -1\<close> while
  it overlaps a paddle at the left edge of the screen is hit by the paddle
  (and moved to the paddle's right edge) before the goal check: the update
  returns four lives.\<close>

theorem paddle_saves_ball_left_of_screen:
  "lives engine_at_paddle = 4 \<and>
   sint (ball_x (ball (after_move stick_centred engine_at_paddle))) = - 1 \<and>
   fst (PongEngine_Update (frame_at 0 20) stick_centred (engine_at_paddle, audio_startup)) = 4"
  by (simp add: paddle_moved PongEngine_Update_def after_collisions_def Let_def
      PongEngine_CheckWallCollision_def PongEngine_CheckPaddleCollision_def PongEngine_CheckGoal_def
      Ball_GetVelocity_def Ball_SetVelocity_def Ball_GetAABB_def Paddle_GetAABB_def AABB_Collides_def
      Paddle_Init_def Paddle_AddScore_def SCREEN_HEIGHT_def SCREEN_WIDTH_def split_def)
    (simp add: engine_at_paddle_def)

text \<open>Claim C3, amended. For every engine state with four lives in which,
  after the ball position update, the ball's left edge is below 0 and the ball
  does not meet the paddle in this frame: \<open>PongEngine_Update\<close> returns 3 and
  leaves 3 lives; the ball is at \<open>(240 - size) / 2\<close> (C division) plus
  \<open>Random_U16(41) - 20\<close> on each axis, each axis with its own draw, hence
  within 20 pixels of the centre on both axes; and the velocity is
  \<open>(8.0f * 0.707f, 8.0f * 0.707f)\<close>, equal positive components, so a 45-degree
  diagonal moving rightward.\<close>

theorem goal_scenario:
  assumes "lives (fst st) = 4"
    and "sint (ball_x (ball (after_move inp (fst st)))) < 0"
    and "\<not> ball_meets_paddle env inp st"
  shows "let r = PongEngine_Update env inp st; e' = fst (snd r);
             c = c_div (240 - sint (ball_size (ball (fst st)))) 2
         in fst r = 3 \<and> lives e' = 3 \<and>
            sint (ball_x (ball e')) = c + (sint (Random_U16 (rng_dx env) 41) - 20) \<and>
            sint (ball_y (ball e')) = c + (sint (Random_U16 (rng_dy env) 41) - 20) \<and>
            \<bar>sint (ball_x (ball e')) - c\<bar> \<le> 20 \<and> \<bar>sint (ball_y (ball e')) - c\<bar> \<le> 20 \<and>
            velocity (ball e') = \<lparr>vec_x = reset_speed_component, vec_y = reset_speed_component\<rparr> \<and>
            reset_speed_component = 8 * f32_0_707"
proof -
  let ?w = "PongEngine_CheckWallCollision env (after_move inp (fst st), snd st)"
  have ac: "after_collisions env inp st = ?w" using assms(3) by (rule after_collisions_no_hit)
  have left: "sint (ball_x (ball (fst ?w))) < 0" using assms(2) by (rule wall_step_keeps_left)
  have sz: "ball_size (ball (fst ?w)) = ball_size (ball (fst st))"
    using wall_step_frame [of env "after_move inp (fst st)" "snd st"]
      after_move_frame [of inp "fst st"]
    by simp
  have lv: "lives (fst ?w) = 4"
    using wall_step_frame [of env "after_move inp (fst st)" "snd st"]
      after_move_frame [of inp "fst st"] assms(1)
    by simp
  have rx: "\<bar>sint (Random_U16 (rng_dx env) 41) - 20\<bar> \<le> 20"
    using Random_U16_41 [of "rng_dx env"] by linarith
  have ry: "\<bar>sint (Random_U16 (rng_dy env) 41) - 20\<bar> \<le> 20"
    using Random_U16_41 [of "rng_dy env"] by linarith
  show ?thesis
    using CheckGoal_scored [OF left, of env] rx ry
    by (simp add: PongEngine_Update_def Let_def ac sz lv reset_val f32_0_707_def)
qed

theorem goal_scenario_witness:
  "lives (fst (engine_before_miss 4, audio_startup)) = 4 \<and>
   sint (ball_x (ball (after_move stick_centred (fst (engine_before_miss 4, audio_startup))))) < 0 \<and>
   \<not> ball_meets_paddle (frame_at 0 20) stick_centred (engine_before_miss 4, audio_startup) \<and>
   fst (PongEngine_Update (frame_at 0 20) stick_centred (engine_before_miss 4, audio_startup)) = 3 \<and>
   sint (ball_x (ball (fst (snd (PongEngine_Update (frame_at 0 20) stick_centred
       (engine_before_miss 4, audio_startup)))))) = 115 \<and>
   sint (ball_y (ball (fst (snd (PongEngine_Update (frame_at 0 20) stick_centred
       (engine_before_miss 4, audio_startup)))))) = 115"
proof -
  have h1: "lives (fst (engine_before_miss 4, audio_startup)) = 4"
    by (simp add: engine_before_miss_def)
  have h2: "sint (ball_x (ball (after_move stick_centred
      (fst (engine_before_miss 4, audio_startup))))) < 0"
    by (simp add: before_miss_moved)
  have h3: "\<not> ball_meets_paddle (frame_at 0 20) stick_centred
      (engine_before_miss 4, audio_startup)"
    by (rule before_miss_no_hit)
  have r: "sint (Random_U16 (Some 20) 41) = 20" by (simp add: Random_U16_def)
  show ?thesis
    using h1 h2 h3 goal_scenario [OF h1 h2 h3]
    by (simp add: Let_def frame_at_def r c_div_def engine_before_miss_def)
qed

section \<open>Properties of the ball velocity\<close>

lemma wall_step_diagonal:
  "diagonal m (velocity (ball e)) \<Longrightarrow>
   diagonal m (velocity (ball (fst (PongEngine_CheckWallCollision env (e, au)))))"
  by (simp add: PongEngine_CheckWallCollision_def Let_def Ball_SetVelocity_def
      Ball_GetVelocity_def split_def diagonal_def)

lemma paddle_step_diagonal:
  "diagonal m (velocity (ball (fst st))) \<Longrightarrow>
   diagonal m (velocity (ball (fst (PongEngine_CheckPaddleCollision env st))))"
  by (simp add: PongEngine_CheckPaddleCollision_def Let_def Ball_SetVelocity_def
      Ball_GetVelocity_def diagonal_def)

lemma after_move_velocity: "velocity (ball (after_move inp e)) = velocity (ball e)"
  by (simp add: after_move_def Let_def Ball_Update_def)

lemma goal_step_velocity:
  "velocity (ball (PongEngine_CheckGoal env e)) = velocity (ball e) \<or>
   velocity (ball (PongEngine_CheckGoal env e)) =
     \<lparr>vec_x = reset_speed_component, vec_y = reset_speed_component\<rparr>"
  by (simp add: PongEngine_CheckGoal_def Let_def Ball_SetVelocity_def Ball_SetPos_def)

text \<open>One frame keeps the absolute value of both velocity components, or
  replaces the velocity by that of a goal reset.\<close>

lemma Update_diagonal:
  assumes "diagonal m (velocity (ball (fst st)))"
  shows "diagonal m (velocity (ball (fst (snd (PongEngine_Update env inp st))))) \<or>
         diagonal reset_speed_component
           (velocity (ball (fst (snd (PongEngine_Update env inp st)))))"
proof -
  let ?c = "after_collisions env inp st"
  have "diagonal m (velocity (ball (after_move inp (fst st))))"
    using assms by (simp add: after_move_velocity)
  then have "diagonal m (velocity (ball (fst (PongEngine_CheckWallCollision env
      (after_move inp (fst st), snd st)))))"
    by (rule wall_step_diagonal)
  then have c: "diagonal m (velocity (ball (fst ?c)))"
    unfolding after_collisions_def by (rule paddle_step_diagonal)
  from goal_step_velocity [of env "fst ?c"] show ?thesis
  proof
    assume "velocity (ball (PongEngine_CheckGoal env (fst ?c))) = velocity (ball (fst ?c))"
    then show ?thesis using c by (simp add: PongEngine_Update_def Let_def)
  next
    assume "velocity (ball (PongEngine_CheckGoal env (fst ?c))) =
      \<lparr>vec_x = reset_speed_component, vec_y = reset_speed_component\<rparr>"
    then show ?thesis using reset_pos by (simp add: PongEngine_Update_def Let_def diagonal_def)
  qed
qed

lemma run_diagonal:
  "diagonal m (velocity (ball (fst st))) \<or>
   diagonal reset_speed_component (velocity (ball (fst st)))
   \<Longrightarrow> diagonal m (velocity (ball (fst (PongEngine_run fs st)))) \<or>
       diagonal reset_speed_component (velocity (ball (fst (PongEngine_run fs st))))"
proof (induction fs arbitrary: st)
  case Nil
  then show ?case by simp
next
  case (Cons f fs)
  have "diagonal m (velocity (ball (fst (snd (PongEngine_Update (fst f) (snd f) st))))) \<or>
        diagonal reset_speed_component
          (velocity (ball (fst (snd (PongEngine_Update (fst f) (snd f) st)))))"
    using Cons.prems Update_diagonal [of m st "fst f" "snd f"]
      Update_diagonal [of reset_speed_component st "fst f" "snd f"] by blast
  then show ?case using Cons.IH [of "snd (PongEngine_Update (fst f) (snd f) st)"] by simp
qed

lemma diagonal_speed: "0 \<le> m \<Longrightarrow> diagonal m v \<Longrightarrow> speed_of v = sqrt 2 * m"
proof -
  assume m: "0 \<le> m" and d: "diagonal m v"
  have "\<bar>vec_x v\<bar>\<^sup>2 = m\<^sup>2" "\<bar>vec_y v\<bar>\<^sup>2 = m\<^sup>2"
    using d by (simp_all add: diagonal_def)
  then have "(vec_x v)\<^sup>2 = m\<^sup>2" "(vec_y v)\<^sup>2 = m\<^sup>2"
    by simp_all
  then have "speed_of v = sqrt (2 * m\<^sup>2)" by (simp add: speed_of_def)
  also have "\<dots> = sqrt 2 * m" using m by (simp add: real_sqrt_mult)
  finally show ?thesis .
qed

lemma flight_to_goal_speed_16:
  "fst (PongEngine_run (idle_frames 32) (PongEngine_Init 10 100 5 40 10 16, audio_startup)) =
     \<lparr>ball = \<lparr>ball_x = 115, ball_y = 115, ball_size = 10,
              velocity = \<lparr>vec_x = 2965373 / 524288, vec_y = 2965373 / 524288\<rparr>\<rparr>,
      paddle = \<lparr>pad_x = 10, pad_y = 100, pad_width = 5, pad_height = 40, pad_speed = 6,
                pad_score = 0\<rparr>,
      lives = 3\<rparr>"
  by code_simp

lemma init_velocity_speed_16:
  "velocity (ball (PongEngine_Init 10 100 5 40 10 16)) =
     \<lparr>vec_x = 2965373 / 262144, vec_y = 2965373 / 262144\<rparr>"
  by (simp add: PongEngine_Init_def Ball_Init_def f32_mul_def f32_round_def f32_exponent_def
      f32_0_707_def eval_nat_numeral round_half_even_def Let_def)

lemma speeds_differ:
  "speed_of \<lparr>vec_x = 2965373 / 524288, vec_y = 2965373 / 524288\<rparr> \<noteq>
   speed_of \<lparr>vec_x = 2965373 / 262144, vec_y = 2965373 / 262144\<rparr>"
proof -
  have "((2965373 / 524288)\<^sup>2 + (2965373 / 524288)\<^sup>2 :: real) \<noteq>
        (2965373 / 262144)\<^sup>2 + (2965373 / 262144)\<^sup>2"
    by (simp add: power2_eq_square)
  then show ?thesis unfolding speed_of_def
    by (simp only: real_sqrt_eq_iff Vector2D.simps not_False_eq_True)
qed

text \<open>A game started with ball speed 16 (velocity \<open>16 * 0.707f\<close> on both axes):
  the ball bounces in the bottom right corner, passes above the paddle and
  leaves the screen in frame 32; the goal reset gives it the velocity
  \<open>8 * 0.707f\<close> on both axes, half the magnitude it had.\<close>

theorem goal_reset_changes_speed:
  "velocity (ball (PongEngine_Init 10 100 5 40 10 16)) =
      \<lparr>vec_x = 2965373 / 262144, vec_y = 2965373 / 262144\<rparr> \<and>
   velocity (ball (fst (PongEngine_run (idle_frames 32)
        (PongEngine_Init 10 100 5 40 10 16, audio_startup)))) =
      \<lparr>vec_x = 2965373 / 524288, vec_y = 2965373 / 524288\<rparr> \<and>
   speed_of (velocity (ball (fst (PongEngine_run (idle_frames 32)
        (PongEngine_Init 10 100 5 40 10 16, audio_startup))))) \<noteq>
   speed_of (velocity (ball (PongEngine_Init 10 100 5 40 10 16)))"
  using speeds_differ
  by (simp only: flight_to_goal_speed_16 init_velocity_speed_16 PongEngine_t.simps Ball_t.simps)
    simp

text \<open>The wall step and the paddle step leave each velocity component as it
  is or negate it.\<close>

lemma wall_step_flips:
  "(vec_x (velocity (ball (fst (PongEngine_CheckWallCollision env (e, au))))) =
      vec_x (velocity (ball e)) \<or>
    vec_x (velocity (ball (fst (PongEngine_CheckWallCollision env (e, au))))) =
      - vec_x (velocity (ball e))) \<and>
   (vec_y (velocity (ball (fst (PongEngine_CheckWallCollision env (e, au))))) =
      vec_y (velocity (ball e)) \<or>
    vec_y (velocity (ball (fst (PongEngine_CheckWallCollision env (e, au))))) =
      - vec_y (velocity (ball e)))"
  by (simp add: PongEngine_CheckWallCollision_def Let_def Ball_SetVelocity_def
      Ball_GetVelocity_def split_def)

lemma paddle_step_flips:
  "vec_x (velocity (ball (fst (PongEngine_CheckPaddleCollision env st)))) \<in>
      {vec_x (velocity (ball (fst st))), - vec_x (velocity (ball (fst st)))} \<and>
   vec_y (velocity (ball (fst (PongEngine_CheckPaddleCollision env st)))) =
      vec_y (velocity (ball (fst st)))"
  by (simp add: PongEngine_CheckPaddleCollision_def Let_def Ball_SetVelocity_def
      Ball_GetVelocity_def)

lemma collisions_flip:
  "(vec_x (velocity (ball (fst (after_collisions env inp st)))) = vec_x (velocity (ball (fst st))) \<or>
    vec_x (velocity (ball (fst (after_collisions env inp st)))) =
      - vec_x (velocity (ball (fst st)))) \<and>
   (vec_y (velocity (ball (fst (after_collisions env inp st)))) = vec_y (velocity (ball (fst st))) \<or>
    vec_y (velocity (ball (fst (after_collisions env inp st)))) =
      - vec_y (velocity (ball (fst st))))"
proof -
  let ?w = "PongEngine_CheckWallCollision env (after_move inp (fst st), snd st)"
  have w: "(vec_x (velocity (ball (fst ?w))) = vec_x (velocity (ball (fst st))) \<or>
            vec_x (velocity (ball (fst ?w))) = - vec_x (velocity (ball (fst st)))) \<and>
           (vec_y (velocity (ball (fst ?w))) = vec_y (velocity (ball (fst st))) \<or>
            vec_y (velocity (ball (fst ?w))) = - vec_y (velocity (ball (fst st))))"
    using wall_step_flips [of env "after_move inp (fst st)" "snd st"]
    by (simp add: after_move_velocity)
  show ?thesis
    unfolding after_collisions_def using w paddle_step_flips [of env ?w] by auto
qed

lemma flips_keep_speed:
  assumes "vec_x w = vec_x u \<or> vec_x w = - vec_x u"
    and "vec_y w = vec_y u \<or> vec_y w = - vec_y u"
  shows "speed_of w = speed_of u"
proof -
  have "(vec_x w)\<^sup>2 = (vec_x u)\<^sup>2" using assms(1) by auto
  moreover have "(vec_y w)\<^sup>2 = (vec_y u)\<^sup>2" using assms(2) by auto
  ultimately show ?thesis by (simp add: speed_of_def)
qed

text \<open>The goal check replaces the velocity exactly when the ball's left edge
  is below 0.\<close>

lemma goal_step_velocity_cases:
  "velocity (ball (PongEngine_CheckGoal env e)) =
     (if sint (ball_x (ball e)) < 0
      then \<lparr>vec_x = reset_speed_component, vec_y = reset_speed_component\<rparr>
      else velocity (ball e))"
  by (simp add: PongEngine_CheckGoal_def Let_def Ball_SetVelocity_def Ball_SetPos_def)

text \<open>Claim C4, amended. A ball initialised by \<open>Ball_Init(size, speed)\<close> has
  the velocity \<open>(v, v)\<close> with \<open>v = speed * 0.707f\<close> (rounded to single precision).
  In every \<open>PongEngine_Update\<close>, from every state, the wall and paddle
  collisions leave each velocity component as it is or negate it, so they
  keep the magnitude; the goal check that follows leaves the velocity as it
  is unless the ball's left edge is below 0, and then replaces it by
  \<open>(8.0f * 0.707f, 8.0f * 0.707f)\<close> whatever the initial speed was. Hence
  after every sequence of updates from \<open>PongEngine_Init\<close> both components have
  the same absolute value, \<open>|v|\<close> or \<open>8.0f * 0.707f\<close>, and the magnitude is
  \<open>sqrt 2 * |v|\<close> or \<open>sqrt 2 * (8.0f * 0.707f)\<close>; for the initial speed 8 the
  two are equal.\<close>

theorem velocity_magnitude:
  "let e0 = PongEngine_Init px py pw ph sz speed;
       v0 = f32_mul speed f32_0_707;
       v = velocity (ball (fst (PongEngine_run fs (e0, au))));
       u = velocity (ball (fst st));
       c = fst (after_collisions env inp st);
       w = velocity (ball c);
       w' = velocity (ball (fst (snd (PongEngine_Update env inp st))))
   in velocity (ball e0) = \<lparr>vec_x = v0, vec_y = v0\<rparr> \<and>
      (vec_x w = vec_x u \<or> vec_x w = - vec_x u) \<and>
      (vec_y w = vec_y u \<or> vec_y w = - vec_y u) \<and>
      speed_of w = speed_of u \<and>
      w' = (if sint (ball_x (ball c)) < 0
            then \<lparr>vec_x = reset_speed_component, vec_y = reset_speed_component\<rparr>
            else w) \<and>
      (diagonal \<bar>v0\<bar> v \<or> diagonal reset_speed_component v) \<and>
      (speed_of v = sqrt 2 * \<bar>v0\<bar> \<or> speed_of v = sqrt 2 * reset_speed_component) \<and>
      f32_mul 8 f32_0_707 = reset_speed_component"
proof -
  let ?e0 = "PongEngine_Init px py pw ph sz speed"
  let ?vi = "f32_mul speed f32_0_707"
  let ?v = "velocity (ball (fst (PongEngine_run fs (?e0, au))))"
  let ?c = "fst (after_collisions env inp st)"
  have i: "velocity (ball ?e0) = \<lparr>vec_x = ?vi, vec_y = ?vi\<rparr>"
    by (simp add: PongEngine_Init_def Ball_Init_def)
  then have "diagonal \<bar>?vi\<bar> (velocity (ball (fst (?e0, au))))" by (simp add: diagonal_def)
  then have d: "diagonal \<bar>?vi\<bar> ?v \<or> diagonal reset_speed_component ?v"
    using run_diagonal [of "\<bar>?vi\<bar>" "(?e0, au)" fs] by blast
  then have m: "speed_of ?v = sqrt 2 * \<bar>?vi\<bar> \<or> speed_of ?v = sqrt 2 * reset_speed_component"
    using diagonal_speed [of "\<bar>?vi\<bar>" ?v] diagonal_speed [of reset_speed_component ?v] reset_pos
    by auto
  have f: "(vec_x (velocity (ball ?c)) = vec_x (velocity (ball (fst st))) \<or>
            vec_x (velocity (ball ?c)) = - vec_x (velocity (ball (fst st)))) \<and>
           (vec_y (velocity (ball ?c)) = vec_y (velocity (ball (fst st))) \<or>
            vec_y (velocity (ball ?c)) = - vec_y (velocity (ball (fst st))))"
    by (rule collisions_flip)
  then have k: "speed_of (velocity (ball ?c)) = speed_of (velocity (ball (fst st)))"
    by (intro flips_keep_speed) simp_all
  have g: "velocity (ball (fst (snd (PongEngine_Update env inp st)))) =
      (if sint (ball_x (ball ?c)) < 0
       then \<lparr>vec_x = reset_speed_component, vec_y = reset_speed_component\<rparr>
       else velocity (ball ?c))"
    unfolding Update_engine by (rule goal_step_velocity_cases)
  show ?thesis
    unfolding Let_def using i d m f k g by (simp add: reset_speed_component_def)
qed

text \<open>Two frames of the game with a paddle at \<open>(10, 100)\<close>: a ball that bounces
  off the top wall keeps \<open>vx\<close> and has \<open>vy\<close> negated, with no goal; a ball that
  leaves the screen on the left has its velocity replaced.\<close>

theorem velocity_magnitude_witness:
  "velocity (ball (fst (snd (PongEngine_Update (frame_at 0 20) stick_centred
       (engine_at_top, audio_startup))))) = \<lparr>vec_x = 3, vec_y = 3\<rparr> \<and>
   speed_of (velocity (ball (fst (after_collisions (frame_at 0 20) stick_centred
       (engine_at_top, audio_startup))))) = speed_of \<lparr>vec_x = 3, vec_y = - 3\<rparr> \<and>
   velocity (ball (fst (snd (PongEngine_Update (frame_at 0 20) stick_centred
       (engine_before_miss 4, audio_startup))))) =
     \<lparr>vec_x = reset_speed_component, vec_y = reset_speed_component\<rparr>"
proof -
  have t: "fst (after_collisions (frame_at 0 20) stick_centred (engine_at_top, audio_startup)) =
      \<lparr>ball = \<lparr>ball_x = 103, ball_y = 2, ball_size = 10, velocity = \<lparr>vec_x = 3, vec_y = 3\<rparr>\<rparr>,
       paddle = Paddle_Init 10 100 5 40 6, lives = 4\<rparr>"
    by (simp add: after_collisions_def after_move_def engine_at_top_def stick_centred_def
        Paddle_Update_def Paddle_Init_def Ball_Update_def f32_to_int16_def
        PongEngine_CheckWallCollision_def PongEngine_CheckPaddleCollision_def Let_def
        Ball_GetVelocity_def Ball_SetVelocity_def Ball_GetAABB_def Paddle_GetAABB_def
        AABB_Collides_def SCREEN_HEIGHT_def SCREEN_WIDTH_def)
  have u: "velocity (ball engine_at_top) = \<lparr>vec_x = 3, vec_y = - 3\<rparr>"
    by (simp add: engine_at_top_def)
  have b: "fst (after_collisions (frame_at 0 20) stick_centred
               (engine_before_miss 4, audio_startup)) =
      \<lparr>ball = \<lparr>ball_x = - 2, ball_y = 3, ball_size = 10,
               velocity = \<lparr>vec_x = - reset_speed_component, vec_y = - reset_speed_component\<rparr>\<rparr>,
       paddle = Paddle_Init 10 100 5 40 6, lives = 4\<rparr>"
    by (simp add: after_collisions_def before_miss_moved PongEngine_CheckWallCollision_def
        PongEngine_CheckPaddleCollision_def Let_def Ball_GetVelocity_def Ball_GetAABB_def
        Paddle_GetAABB_def AABB_Collides_def Paddle_Init_def SCREEN_HEIGHT_def SCREEN_WIDTH_def)
  show ?thesis
    using velocity_magnitude [of 10 100 5 40 10 8 "[]" audio_startup
        "(engine_at_top, audio_startup)" "frame_at 0 20" stick_centred]
      velocity_magnitude [of 10 100 5 40 10 8 "[]" audio_startup
        "(engine_before_miss 4, audio_startup)" "frame_at 0 20" stick_centred]
    by (simp add: Let_def t u b)
qed

section \<open>Properties of the lives counter\<close>

lemma after_collisions_lives: "lives (fst (after_collisions env inp st)) = lives (fst st)"
  by (simp add: after_collisions_def PongEngine_CheckPaddleCollision_def Let_def
      wall_step_frame after_move_frame)

lemma Update_lives:
  "fst (PongEngine_Update env inp st) = lives (fst (snd (PongEngine_Update env inp st))) \<and>
   (lives (fst (snd (PongEngine_Update env inp st))) = lives (fst st) \<or>
    lives (fst (snd (PongEngine_Update env inp st))) = lives (fst st) - 1)"
  by (simp add: PongEngine_Update_def Let_def PongEngine_CheckGoal_def after_collisions_lives)

lemma u8_pred: "(w :: 8 word) \<noteq> 0 \<Longrightarrow> unat (w - 1) = unat w - 1"
  by (simp add: unat_minus_one)

lemma Update_lives_alive:
  assumes "lives (fst st) \<noteq> 0"
  shows "unat (lives (fst (snd (PongEngine_Update env inp st)))) \<le> unat (lives (fst st)) \<and>
         unat (lives (fst st)) \<le> unat (lives (fst (snd (PongEngine_Update env inp st)))) + 1"
proof -
  have "unat (lives (fst st)) \<noteq> 0" using assms by (simp add: unat_eq_zero)
  then show ?thesis using Update_lives [of env inp st] u8_pred [OF assms] by auto
qed

lemma run_lives_alive:
  "alive_throughout fs st \<Longrightarrow>
   unat (lives (fst (PongEngine_run fs st))) \<le> unat (lives (fst st)) \<and>
   unat (lives (fst st)) \<le> unat (lives (fst (PongEngine_run fs st))) + length fs"
proof (induction fs arbitrary: st)
  case Nil
  then show ?case by simp
next
  case (Cons f fs)
  let ?st = "snd (PongEngine_Update (fst f) (snd f) st)"
  from Cons.prems have a: "lives (fst st) \<noteq> 0" and b: "alive_throughout fs ?st" by simp_all
  show ?case using Cons.IH [OF b] Update_lives_alive [OF a, of "fst f" "snd f"] by simp
qed

subsection \<open>A game played past its end\<close>

lemma run_append: "PongEngine_run (fs @ gs) st = PongEngine_run gs (PongEngine_run fs st)"
  by (induction fs arbitrary: st) simp_all

text \<open>The engine part of a frame does not depend on the audio state.\<close>

lemma wall_engine_audio_free:
  "fst (PongEngine_CheckWallCollision env (e, au)) =
   fst (PongEngine_CheckWallCollision env (e, au'))"
  by (simp add: PongEngine_CheckWallCollision_def Let_def split_def)

lemma paddle_engine_audio_free:
  "fst st = fst st' \<Longrightarrow>
   fst (PongEngine_CheckPaddleCollision env st) = fst (PongEngine_CheckPaddleCollision env st')"
  by (simp add: PongEngine_CheckPaddleCollision_def Let_def)

lemma collisions_engine_audio_free:
  "fst (after_collisions env inp (e, au)) = fst (after_collisions env inp (e, au'))"
  unfolding after_collisions_def
  by (rule paddle_engine_audio_free) (simp add: wall_engine_audio_free [of env _ au au'])

lemma Update_engine_audio_free:
  "fst (snd (PongEngine_Update env inp (e, au))) = fst (snd (PongEngine_Update env inp (e, au')))"
  unfolding Update_engine by (simp add: collisions_engine_audio_free [of env inp e au au'])

lemma run_engine_audio_free:
  "fst (PongEngine_run fs (e, au)) = fst (PongEngine_run fs (e, au'))"
proof (induction fs arbitrary: e au au')
  case Nil
  then show ?case by simp
next
  case (Cons f fs)
  obtain l1 e1 a1 where u: "PongEngine_Update (fst f) (snd f) (e, au) = (l1, e1, a1)"
    by (cases "PongEngine_Update (fst f) (snd f) (e, au)") auto
  obtain l2 e2 a2 where u': "PongEngine_Update (fst f) (snd f) (e, au') = (l2, e2, a2)"
    by (cases "PongEngine_Update (fst f) (snd f) (e, au')") auto
  have "e1 = e2" using Update_engine_audio_free [of "fst f" "snd f" e au au'] by (simp add: u u')
  then show ?case using Cons.IH [of e1 a1 a2] by (simp add: u u')
qed

text \<open>Only the goal check reads or writes the lives, and it only subtracts 1:
  a game started with \<open>k\<close> more lives runs the same, with \<open>k\<close> more lives.\<close>

lemma after_move_lives_shift:
  "after_move inp (e\<lparr>lives := n\<rparr>) = (after_move inp e)\<lparr>lives := n\<rparr>"
  by (simp add: after_move_def Let_def)

lemma wall_lives_shift:
  "fst (PongEngine_CheckWallCollision env (e\<lparr>lives := n\<rparr>, au)) =
   (fst (PongEngine_CheckWallCollision env (e, au)))\<lparr>lives := n\<rparr>"
  by (simp add: PongEngine_CheckWallCollision_def Let_def split_def)

lemma paddle_lives_shift:
  "fst (PongEngine_CheckPaddleCollision env (e\<lparr>lives := n\<rparr>, au)) =
   (fst (PongEngine_CheckPaddleCollision env (e, au)))\<lparr>lives := n\<rparr>"
  by (simp add: PongEngine_CheckPaddleCollision_def Let_def)

lemma collisions_lives_shift:
  "fst (after_collisions env inp (e\<lparr>lives := n\<rparr>, au)) =
   (fst (after_collisions env inp (e, au)))\<lparr>lives := n\<rparr>"
proof -
  let ?w = "PongEngine_CheckWallCollision env (after_move inp e, au)"
  let ?w' = "PongEngine_CheckWallCollision env ((after_move inp e)\<lparr>lives := n\<rparr>, au)"
  have "fst (PongEngine_CheckPaddleCollision env ?w') =
        fst (PongEngine_CheckPaddleCollision env ((fst ?w)\<lparr>lives := n\<rparr>, snd ?w))"
    by (rule paddle_engine_audio_free) (simp add: wall_lives_shift)
  also have "\<dots> = (fst (PongEngine_CheckPaddleCollision env (fst ?w, snd ?w)))\<lparr>lives := n\<rparr>"
    by (rule paddle_lives_shift)
  finally show ?thesis by (simp add: after_collisions_def after_move_lives_shift)
qed

lemma goal_lives_shift:
  "PongEngine_CheckGoal env (e\<lparr>lives := lives e + k\<rparr>) =
   (PongEngine_CheckGoal env e)\<lparr>lives := lives (PongEngine_CheckGoal env e) + k\<rparr>"
  by (simp add: PongEngine_CheckGoal_def Let_def)

lemma Update_lives_shift:
  "fst (snd (PongEngine_Update env inp (e\<lparr>lives := lives e + k\<rparr>, au))) =
   (fst (snd (PongEngine_Update env inp (e, au))))
     \<lparr>lives := lives (fst (snd (PongEngine_Update env inp (e, au)))) + k\<rparr>"
proof -
  let ?c = "fst (after_collisions env inp (e, au))"
  have l: "lives ?c = lives e" using after_collisions_lives [of env inp "(e, au)"] by simp
  have "fst (after_collisions env inp (e\<lparr>lives := lives e + k\<rparr>, au)) =
      ?c\<lparr>lives := lives ?c + k\<rparr>"
    by (simp add: collisions_lives_shift l)
  then show ?thesis unfolding Update_engine by (simp only: goal_lives_shift)
qed

lemma run_lives_shift:
  "fst (PongEngine_run fs (e\<lparr>lives := lives e + k\<rparr>, au)) =
   (fst (PongEngine_run fs (e, au)))\<lparr>lives := lives (fst (PongEngine_run fs (e, au))) + k\<rparr>"
proof (induction fs arbitrary: e au)
  case Nil
  then show ?case by simp
next
  case (Cons f fs)
  obtain l1 e1 a1 where u: "PongEngine_Update (fst f) (snd f) (e, au) = (l1, e1, a1)"
    by (cases "PongEngine_Update (fst f) (snd f) (e, au)") auto
  obtain l2 e2 a2 where
    v: "PongEngine_Update (fst f) (snd f) (e\<lparr>lives := lives e + k\<rparr>, au) = (l2, e2, a2)"
    by (cases "PongEngine_Update (fst f) (snd f) (e\<lparr>lives := lives e + k\<rparr>, au)") auto
  have "e2 = e1\<lparr>lives := lives e1 + k\<rparr>"
    using Update_lives_shift [of "fst f" "snd f" e k au] by (simp add: u v)
  then have "fst (PongEngine_run fs (e2, a2)) =
      fst (PongEngine_run fs (e1\<lparr>lives := lives e1 + k\<rparr>, a1))"
    using run_engine_audio_free [of fs e2 a2 a1] by simp
  also have "\<dots> = (fst (PongEngine_run fs (e1, a1)))
      \<lparr>lives := lives (fst (PongEngine_run fs (e1, a1))) + k\<rparr>"
    by (rule Cons.IH)
  finally show ?case by (simp add: u v)
qed

text \<open>From kick-off the ball needs 68 idle frames to come back to the left
  edge: 23 frames to the bottom right corner, one more to leave the bottom
  wall, 44 to fly back above the paddle.\<close>

lemma flight_to_left_edge:
  "fst (PongEngine_run (idle_frames 68) (PongEngine_Init 10 100 5 40 10 8, audio_startup)) =
     \<lparr>ball = \<lparr>ball_x = 3, ball_y = 8, ball_size = 10,
              velocity = \<lparr>vec_x = - (2965373 / 524288), vec_y = - (2965373 / 524288)\<rparr>\<rparr>,
      paddle = \<lparr>pad_x = 10, pad_y = 100, pad_width = 5, pad_height = 40, pad_speed = 6,
                pad_score = 0\<rparr>,
      lives = 4\<rparr>"
  by code_simp

lemma init_speed_8: "f32_mul 8 f32_0_707 = 2965373 / 524288"
  using reset_val by (simp add: reset_speed_component_def)

lemma flight_to_left_edge_any:
  "fst (PongEngine_run (idle_frames 68) (engine_at_kickoff n, au)) = engine_before_miss n"
proof -
  let ?k = "engine_at_kickoff 4"
  have "engine_at_kickoff n = ?k\<lparr>lives := lives ?k + (n - 4)\<rparr>"
    by (simp add: engine_at_kickoff_def)
  then have "fst (PongEngine_run (idle_frames 68) (engine_at_kickoff n, au)) =
     (fst (PongEngine_run (idle_frames 68) (?k, au)))
       \<lparr>lives := lives (fst (PongEngine_run (idle_frames 68) (?k, au))) + (n - 4)\<rparr>"
    using run_lives_shift [of "idle_frames 68" ?k "n - 4" au] by simp
  moreover have "?k = PongEngine_Init 10 100 5 40 10 8"
    by (simp add: engine_at_kickoff_def PongEngine_Init_def)
  then have "fst (PongEngine_run (idle_frames 68) (?k, au)) = engine_before_miss 4"
    using flight_to_left_edge run_engine_audio_free [of "idle_frames 68" ?k au audio_startup]
    by (simp add: engine_before_miss_def reset_val Paddle_Init_def)
  ultimately show ?thesis by (simp add: engine_before_miss_def)
qed

lemma before_miss_collisions:
  "fst (after_collisions (frame_at 0 20) stick_centred (engine_before_miss n, au)) =
     \<lparr>ball = \<lparr>ball_x = - 2, ball_y = 3, ball_size = 10,
              velocity = \<lparr>vec_x = - reset_speed_component, vec_y = - reset_speed_component\<rparr>\<rparr>,
      paddle = Paddle_Init 10 100 5 40 6, lives = n\<rparr>"
  by (simp add: after_collisions_def before_miss_moved PongEngine_CheckWallCollision_def
      PongEngine_CheckPaddleCollision_def Let_def Ball_GetVelocity_def Ball_GetAABB_def
      Paddle_GetAABB_def AABB_Collides_def Paddle_Init_def SCREEN_HEIGHT_def SCREEN_WIDTH_def)

lemma miss_step:
  "fst (snd (PongEngine_Update (frame_at 0 20) stick_centred (engine_before_miss n, au))) =
     engine_at_kickoff (n - 1)"
  unfolding Update_engine before_miss_collisions
  by (simp add: PongEngine_CheckGoal_def Let_def Ball_SetPos_def Ball_SetVelocity_def
      Random_U16_def frame_at_def c_div_def SCREEN_HEIGHT_def SCREEN_WIDTH_def
      BALL_RESET_OFFSET_def engine_at_kickoff_def PongEngine_Init_def Ball_Init_def
      init_speed_8 reset_val)

lemma run_split:
  "fst (PongEngine_run (idle_frames (a + b)) (e, au)) =
   fst (PongEngine_run (idle_frames b) (fst (PongEngine_run (idle_frames a) (e, au)), au))"
proof -
  have "PongEngine_run (idle_frames (a + b)) (e, au) =
      PongEngine_run (idle_frames b) (PongEngine_run (idle_frames a) (e, au))"
    by (simp add: idle_frames_def replicate_add run_append)
  then show ?thesis
    using run_engine_audio_free [of "idle_frames b" "fst (PongEngine_run (idle_frames a) (e, au))"
        "snd (PongEngine_run (idle_frames a) (e, au))" au]
    by simp
qed

lemma run_one:
  "fst (PongEngine_run (idle_frames 1) (e, au)) =
   fst (snd (PongEngine_Update (frame_at 0 20) stick_centred (e, au)))"
  by (simp add: idle_frames_def)

text \<open>Every 69 idle frames cost one life and put the ball back to kick-off.\<close>

lemma life_cycle:
  "fst (PongEngine_run (idle_frames 69) (engine_at_kickoff n, au)) = engine_at_kickoff (n - 1)"
  using run_split [of 68 1 "engine_at_kickoff n" au]
  by (simp only: flight_to_left_edge_any run_one miss_step) simp

text \<open>A game started by \<open>PongEngine_Init\<close> (ball speed 8) and updated for 344
  idle frames has lost its four lives; the call made for frame 345 returns
  255 lives.\<close>

theorem game_over_then_255_lives:
  "lives (fst (PongEngine_run (idle_frames 344)
      (PongEngine_Init 10 100 5 40 10 8, audio_startup))) = 0 \<and>
   fst (PongEngine_Update (frame_at 0 20) stick_centred
      (PongEngine_run (idle_frames 344) (PongEngine_Init 10 100 5 40 10 8, audio_startup))) = 255"
proof -
  let ?au = audio_startup
  let ?k = "engine_at_kickoff 4"
  let ?r = "PongEngine_run (idle_frames 344) (?k, ?au)"
  have i: "PongEngine_Init 10 100 5 40 10 8 = ?k"
    by (simp add: engine_at_kickoff_def PongEngine_Init_def)
  have 1: "fst (PongEngine_run (idle_frames 69) (?k, ?au)) = engine_at_kickoff 3"
    using life_cycle [of 4 ?au] by simp
  have 2: "fst (PongEngine_run (idle_frames 138) (?k, ?au)) = engine_at_kickoff 2"
    using run_split [of 69 69 ?k ?au] life_cycle [of 3 ?au] by (simp add: 1)
  have 3: "fst (PongEngine_run (idle_frames 207) (?k, ?au)) = engine_at_kickoff 1"
    using run_split [of 138 69 ?k ?au] life_cycle [of 2 ?au] by (simp add: 2)
  have 4: "fst (PongEngine_run (idle_frames 276) (?k, ?au)) = engine_at_kickoff 0"
    using run_split [of 207 69 ?k ?au] life_cycle [of 1 ?au] by (simp add: 3)
  have 5: "fst ?r = engine_before_miss 0"
    using run_split [of 276 68 ?k ?au] flight_to_left_edge_any [of 0 ?au] by (simp add: 4)
  have "?r = (engine_before_miss 0, snd ?r)" using 5 by (metis prod.collapse)
  then have "fst (snd (PongEngine_Update (frame_at 0 20) stick_centred ?r)) =
      engine_at_kickoff (0 - 1)"
    using miss_step [of 0 "snd ?r"] by simp
  then have "lives (fst (snd (PongEngine_Update (frame_at 0 20) stick_centred ?r))) = 255"
    by (simp add: engine_at_kickoff_def)
  then show ?thesis
    using 5 Update_lives [of "frame_at 0 20" stick_centred ?r]
    by (simp add: i engine_before_miss_def)
qed

text \<open>Claim C5, amended. \<open>PongEngine_Init\<close> sets the lives to 4.
  \<open>PongEngine_Update\<close> returns the lives that the engine holds after the update.
  A call made with at least one life left never increases the lives and takes
  at most one; over every sequence of calls each made with at least one life
  left the lives never exceed their initial number. (The caller ends the game
  at 0 lives and makes no further call.)\<close>

theorem lives_count_down:
  "lives (PongEngine_Init px py pw ph sz speed) = 4 \<and>
   fst (PongEngine_Update env inp st) = lives (fst (snd (PongEngine_Update env inp st))) \<and>
   (lives (fst st) \<noteq> 0 \<longrightarrow>
      unat (lives (fst (snd (PongEngine_Update env inp st)))) \<le> unat (lives (fst st)) \<and>
      unat (lives (fst st)) \<le> unat (lives (fst (snd (PongEngine_Update env inp st)))) + 1) \<and>
   (alive_throughout fs st \<longrightarrow>
      unat (lives (fst (PongEngine_run fs st))) \<le> unat (lives (fst st)))"
  using Update_lives [of env inp st] Update_lives_alive [of st env inp] run_lives_alive [of fs st]
  by (simp add: PongEngine_Init_def)

theorem lives_count_down_witness:
  "lives (fst (engine_before_miss 4, audio_startup)) \<noteq> 0 \<and>
   alive_throughout [(frame_at 0 20, stick_centred)] (engine_before_miss 4, audio_startup) \<and>
   fst (PongEngine_Update (frame_at 0 20) stick_centred (engine_before_miss 4, audio_startup)) = 3 \<and>
   unat (lives (fst (PongEngine_run [(frame_at 0 20, stick_centred)]
      (engine_before_miss 4, audio_startup)))) \<le> 4"
proof -
  have h: "lives (fst (engine_before_miss 4, audio_startup)) \<noteq> 0"
    by (simp add: engine_before_miss_def)
  have l: "lives (fst (snd (PongEngine_Update (frame_at 0 20) stick_centred
      (engine_before_miss 4, audio_startup)))) = 3"
    by (simp add: miss_step engine_at_kickoff_def)
  have l0: "lives (engine_before_miss 4) = 4" by (simp add: engine_before_miss_def)
  show ?thesis
    using h l lives_count_down [of 10 100 5 40 10 8 "frame_at 0 20" stick_centred
        "(engine_before_miss 4, audio_startup)" "[(frame_at 0 20, stick_centred)]"]
    by (simp add: l0)
qed

section \<open>Properties of the framebuffer\<close>

lemma low_nibble_mask: "(0x0F :: 8 word) = mask 4"
  by (simp add: mask_eq_exp_minus_1)

lemma high_nibble_mask: "(0xF0 :: 8 word) = NOT (mask 4)"
  by (simp add: mask_eq_exp_minus_1)

lemma bit_nibble:
  assumes "(c :: 8 word) \<le> 15" and "bit c n"
  shows "n < 4"
proof -
  have "c < 2 ^ 4" using assms(1) by (simp add: word_less_nat_alt word_le_nat_alt)
  then have "c AND mask 4 = c" by (rule less_mask_eq)
  then have "bit (c AND mask 4) n" using assms(2) by simp
  then show "n < 4" by (simp add: bit_simps)
qed

lemma low_store_low:
  assumes "(c :: 8 word) \<le> 15"
  shows "(c OR (b AND 0xF0)) AND 0x0F = c"
proof -
  have "(c OR (b AND NOT (mask 4))) AND mask 4 = c"
    by (rule bit_word_eqI) (auto simp add: bit_simps dest: bit_nibble [OF assms])
  then show ?thesis by (simp only: low_nibble_mask high_nibble_mask)
qed

lemma low_store_high:
  assumes "(c :: 8 word) \<le> 15"
  shows "drop_bit 4 (c OR (b AND 0xF0)) = drop_bit 4 b"
proof -
  have "drop_bit 4 (c OR (b AND NOT (mask 4))) = drop_bit 4 b"
    by (rule bit_word_eqI)
      (auto simp add: bit_simps dest: bit_nibble [OF assms] bit_imp_le_length)
  then show ?thesis by (simp only: low_nibble_mask high_nibble_mask)
qed

lemma high_store_high:
  assumes "(c :: 8 word) \<le> 15"
  shows "drop_bit 4 (push_bit 4 c OR (b AND 0x0F)) = c"
proof -
  have "drop_bit 4 (push_bit 4 c OR (b AND mask 4)) = c"
    by (rule bit_word_eqI) (auto simp add: bit_simps dest: bit_nibble [OF assms])
  then show ?thesis by (simp only: low_nibble_mask high_nibble_mask)
qed

lemma high_store_low: "(push_bit 4 c OR (b AND 0x0F)) AND 0x0F = b AND (0x0F :: 8 word)"
proof -
  have "(push_bit 4 c OR (b AND mask 4)) AND mask 4 = b AND (mask 4 :: 8 word)"
    by (rule bit_word_eqI) (auto simp add: bit_simps)
  then show ?thesis by (simp only: low_nibble_mask high_nibble_mask)
qed

lemma push_drop_nibble: "(c :: 8 word) \<le> 15 \<Longrightarrow> drop_bit 4 (push_bit 4 c) = c"
  using high_store_high [of c 0] by simp

lemmas nibble_simps =
  low_store_low low_store_high high_store_high high_store_low push_drop_nibble
  low_store_low [simplified] low_store_high [simplified] high_store_high [simplified]
  high_store_low [simplified]

lemma odd_column: "(px AND 1 \<noteq> 0) = odd (unat (px :: 16 word))"
proof -
  have "(unat px mod 2 = Suc 0) = odd (unat px)" by presburger
  then show ?thesis
    by (simp add: and_one_eq word_eq_iff_unsigned [where ?'a = nat] unat_mod flip: mod_2_eq_odd)
qed

lemma byte_index:
  assumes "unat (px :: 16 word) < 240" "unat (py :: 16 word) < 240"
  shows "unat (word_of_nat ((ST7789V2_WIDTH * unat py + unat px) div 2) :: 16 word)
           = 120 * unat py + unat px div 2"
    and "120 * unat py + unat px div 2 < BUFFER_LENGTH"
proof -
  have "(unat px + 2 * (120 * unat py)) div 2 = unat px div 2 + 120 * unat py"
    by simp
  then have e: "(240 * unat py + unat px) div 2 = 120 * unat py + unat px div 2"
    by (simp add: add.commute)
  have l: "120 * unat py + unat px div 2 < 28800" using assms by linarith
  then have "(120 * unat py + unat px div 2) mod 2 ^ 16 = 120 * unat py + unat px div 2"
    by simp
  then show "unat (word_of_nat ((ST7789V2_WIDTH * unat py + unat px) div 2) :: 16 word)
           = 120 * unat py + unat px div 2"
    unfolding unat_of_nat ST7789V2_WIDTH_def e by simp
  show "120 * unat py + unat px div 2 < BUFFER_LENGTH"
    using l by (simp add: BUFFER_LENGTH_def ST7789V2_WIDTH_def ST7789V2_HEIGHT_def)
qed

lemma same_byte:
  assumes "cx < 240" "x < (240 :: nat)" "120 * cy + cx div 2 = 120 * y + x div 2"
  shows "cy = y \<and> cx div 2 = x div 2"
proof -
  have a: "cx div 2 < 120" "x div 2 < 120" using assms(1,2) by linarith+
  have "(cx div 2 + 120 * cy) div 120 = (x div 2 + 120 * y) div 120"
    using assms(3) by (simp add: add.commute)
  then have "cy = y" using a by simp
  then show ?thesis using assms(3) by simp
qed

text \<open>With coordinates in range \<open>LCD_Set_Pixel\<close> raises no fault, sets the flag of
  the row and rewrites one nibble of byte \<open>120 * y + x div 2\<close>.\<close>

lemma Set_Pixel_in_range:
  assumes "lcd_wf s" "unat px < 240" "unat py < 240"
  shows "LCD_Set_Pixel s px py colour =
     Inr (s\<lparr>track_changes := (track_changes s)[unat py := 1],
            image_buffer := (image_buffer s)[120 * unat py + unat px div 2 :=
               (if odd (unat px)
                then push_bit 4 colour OR
                     (image_buffer s ! (120 * unat py + unat px div 2) AND 0x0F)
                else colour OR
                     (image_buffer s ! (120 * unat py + unat px div 2) AND 0xF0))]\<rparr>)"
  unfolding LCD_Set_Pixel_def Let_def byte_index(1) [OF assms(2,3)]
  using assms byte_index(2) [OF assms(2,3)]
  by (simp add: odd_column ST7789V2_HEIGHT_def ST7789V2_WIDTH_def)

lemma Set_Pixel_cell:
  fixes px py :: uint16_t and colour :: uint8_t
  assumes "lcd_wf s" "unat px < 240" "unat py < 240" "colour \<le> 15"
  defines "s' \<equiv> s\<lparr>track_changes := (track_changes s)[unat py := 1],
            image_buffer := (image_buffer s)[120 * unat py + unat px div 2 :=
               (if odd (unat px)
                then push_bit 4 colour OR
                     (image_buffer s ! (120 * unat py + unat px div 2) AND 0x0F)
                else colour OR
                     (image_buffer s ! (120 * unat py + unat px div 2) AND 0xF0))]\<rparr>"
  shows "pixel_cell s' (unat px) (unat py) = colour"
    and "cx < 240 \<Longrightarrow> cy < 240 \<Longrightarrow> (cx, cy) \<noteq> (unat px, unat py) \<Longrightarrow>
         pixel_cell s' cx cy = pixel_cell s cx cy"
proof -
  let ?i = "120 * unat py + unat px div 2"
  have len: "?i < length (image_buffer s)"
    using assms(1) byte_index(2) [OF assms(2,3)] by (simp add: lcd_wf_def)
  show "pixel_cell s' (unat px) (unat py) = colour"
    using len assms(4)
    by (simp add: pixel_cell_def s'_def Let_def nibble_simps)
  show "pixel_cell s' cx cy = pixel_cell s cx cy"
    if c: "cx < 240" "cy < 240" "(cx, cy) \<noteq> (unat px, unat py)"
  proof (cases "120 * cy + cx div 2 = ?i")
    case False
    then show ?thesis by (simp add: pixel_cell_def s'_def Let_def)
  next
    case True
    then have eq: "cy = unat py" "cx div 2 = unat px div 2"
      using same_byte [OF c(1) assms(2) True] by simp_all
    have "cx \<noteq> unat px" using c(3) eq(1) by simp
    then have par: "even cx \<longleftrightarrow> odd (unat px)" using eq(2) by presburger
    show ?thesis using len assms(4) True par
      by (simp add: pixel_cell_def s'_def Let_def nibble_simps)
  qed
qed

lemma mark_rows_upto:
  "n \<le> length tc \<Longrightarrow>
   length (fold (\<lambda>r t. t[r := 1]) [0..<n] tc) = length tc \<and>
   (\<forall>r < length tc.
      fold (\<lambda>r t. t[r := (1 :: uint8_t)]) [0..<n] tc ! r = (if r < n then 1 else tc ! r))"
proof (induction n)
  case 0
  then show ?case by simp
next
  case (Suc n)
  then show ?case by (auto simp add: nth_list_update)
qed

lemma mark_all_rows_marks:
  assumes "length tc = ST7789V2_HEIGHT"
  shows "length (mark_all_rows tc) = ST7789V2_HEIGHT"
    and "r < ST7789V2_HEIGHT \<Longrightarrow> mark_all_rows tc ! r = 1"
  using mark_rows_upto [of ST7789V2_HEIGHT tc] assms by (simp_all add: mark_all_rows_def)

lemma startup_wf: "lcd_wf lcd_startup"
  by (simp add: lcd_wf_def lcd_startup_def)

text \<open>Claim C7, at the failing input. On the zero-initialised buffer,
  \<open>LCD_Set_Pixel(1, 1, 5)\<close> stores index 5 in the cell of pixel \<open>(1, 1)\<close> (high
  nibble of byte 120), and \<open>LCD_Get_Pixel(1, 1)\<close> then returns 0: it reads the
  high nibble of byte \<open>(1 * 1) >> 1 = 0\<close>, the cell of pixel \<open>(1, 0)\<close>.\<close>

theorem Get_Pixel_reads_another_cell:
  "(case LCD_Set_Pixel lcd_startup 1 1 5 of
      Inl fault \<Rightarrow> False
    | Inr s' \<Rightarrow> pixel_cell s' 1 1 = 5 \<and> LCD_Get_Pixel s' 1 1 = Inr 0)"
  by (simp add: LCD_Set_Pixel_def LCD_Get_Pixel_def lcd_startup_def pixel_cell_def Let_def
      BUFFER_LENGTH_def ST7789V2_WIDTH_def ST7789V2_HEIGHT_def)

lemma Set_Pixel_row_overrun:
  "ST7789V2_HEIGHT \<le> unat py \<Longrightarrow>
   LCD_Set_Pixel s px py colour = Inl (Track_changes_overrun (unat py))"
  by (simp add: LCD_Set_Pixel_def)

text \<open>Claim C8, at the failing input. \<open>LCD_Set_Pixel(0, 240, 1)\<close> writes
  \<open>track_changes[240]\<close>, one element past the end of the array of 240 flags;
  and \<open>LCD_Set_Pixel(240, 0, 1)\<close>, whose pixel is clipped, sets the flag of
  row 0, which was clear.\<close>

theorem Set_Pixel_writes_flag_before_bounds_check:
  "LCD_Set_Pixel lcd_startup 0 240 1 = Inl (Track_changes_overrun 240) \<and>
   track_changes lcd_startup ! 0 = 0 \<and>
   (case LCD_Set_Pixel lcd_startup 240 0 1 of
      Inl fault \<Rightarrow> False
    | Inr s' \<Rightarrow> track_changes s' ! 0 = 1 \<and> image_buffer s' = image_buffer lcd_startup)"
  by (simp add: LCD_Set_Pixel_def lcd_startup_def Let_def
      BUFFER_LENGTH_def ST7789V2_WIDTH_def ST7789V2_HEIGHT_def)

text \<open>\<open>LCD_Set_Pixel\<close> does not mask its colour argument. On the zero-initialised
  buffer \<open>LCD_Set_Pixel(0, 0, 0x1F)\<close> also changes the cell of the neighbouring
  pixel \<open>(1, 0)\<close>, from 0 to 1: for an even column the byte written is
  \<^verbatim>\<open>colour | (old & 0xF0)\<close>.\<close>

theorem Set_Pixel_wide_colour_spills:
  "pixel_cell lcd_startup 1 0 = 0 \<and>
   (case LCD_Set_Pixel lcd_startup 0 0 0x1F of
      Inl fault \<Rightarrow> False
    | Inr s' \<Rightarrow> pixel_cell s' 1 0 = 1)"
  by (simp add: LCD_Set_Pixel_def lcd_startup_def pixel_cell_def Let_def
      BUFFER_LENGTH_def ST7789V2_WIDTH_def ST7789V2_HEIGHT_def)

text \<open>Claim C9, amended. For a buffer of the declared sizes, coordinates in range
  and a palette index \<open>colour \<le> 15\<close>: \<open>LCD_Set_Pixel\<close> raises no fault; the row flags
  afterwards are the old ones with the flag of row \<open>y\<close> set, so every other
  row's flag is unchanged; the cell of pixel \<open>(x, y)\<close> holds \<open>colour\<close> and the cell
  of every other pixel of the screen is unchanged; the palette is unchanged.
  \<open>LCD_Set_Palette\<close> makes the active palette the 16-entry table of the
  palette chosen, sets the flag of every row and leaves the image buffer as
  it is.\<close>

theorem Set_Pixel_and_Set_Palette_frame:
  assumes "lcd_wf s" "unat px < 240" "unat py < 240" "colour \<le> 15"
  shows "(case LCD_Set_Pixel s px py colour of
            Inl fault \<Rightarrow> False
          | Inr s' \<Rightarrow>
              track_changes s' = (track_changes s)[unat py := 1] \<and>
              track_changes s' ! unat py = 1 \<and>
              (\<forall>r < 240. r \<noteq> unat py \<longrightarrow> track_changes s' ! r = track_changes s ! r) \<and>
              pixel_cell s' (unat px) (unat py) = colour \<and>
              (\<forall>cx < 240. \<forall>cy < 240. (cx, cy) \<noteq> (unat px, unat py) \<longrightarrow>
                  pixel_cell s' cx cy = pixel_cell s cx cy) \<and>
              colour_map s' = colour_map s) \<and>
         colour_map (LCD_Set_Palette s p) = palette_table p \<and>
         length (colour_map (LCD_Set_Palette s p)) = 16 \<and>
         (\<forall>r < 240. track_changes (LCD_Set_Palette s p) ! r = 1) \<and>
         image_buffer (LCD_Set_Palette s p) = image_buffer s"
proof -
  have tl: "unat py < length (track_changes s)"
    using assms(1,3) by (simp add: lcd_wf_def ST7789V2_HEIGHT_def)
  have pal: "length (palette_table p) = 16"
    by (cases p) (simp_all add: palette_table_def palette_default_def palette_greyscale_def
        palette_vintage_def palette_custom_def)
  have rows: "\<forall>r < 240. mark_all_rows (track_changes s) ! r = 1"
    using mark_all_rows_marks(2) [of "track_changes s"] assms(1)
    by (simp add: lcd_wf_def ST7789V2_HEIGHT_def)
  show ?thesis
    using tl pal rows Set_Pixel_cell [OF assms]
    by (simp add: Set_Pixel_in_range [OF assms(1-3)] LCD_Set_Palette_def)
qed

theorem Set_Pixel_and_Set_Palette_frame_witness:
  "lcd_wf lcd_startup \<and> unat (3 :: uint16_t) < 240 \<and> unat (7 :: uint16_t) < 240 \<and>
   (9 :: uint8_t) \<le> 15 \<and>
   (case LCD_Set_Pixel lcd_startup 3 7 9 of
      Inl fault \<Rightarrow> False
    | Inr s' \<Rightarrow> track_changes s' ! 7 = 1 \<and> track_changes s' ! 8 = 0 \<and>
        pixel_cell s' 3 7 = 9 \<and> pixel_cell s' 2 7 = 0) \<and>
   colour_map (LCD_Set_Palette lcd_startup PALETTE_VINTAGE) = palette_vintage \<and>
   track_changes (LCD_Set_Palette lcd_startup PALETTE_VINTAGE) ! 239 = 1"
proof -
  have h2: "unat (3 :: uint16_t) < 240" and h3: "unat (7 :: uint16_t) < 240"
    and h4: "(9 :: uint8_t) \<le> 15" by simp_all
  have t: "track_changes lcd_startup ! 8 = 0" "pixel_cell lcd_startup 2 7 = 0"
    by (simp_all add: lcd_startup_def ST7789V2_HEIGHT_def pixel_cell_def BUFFER_LENGTH_def
        ST7789V2_WIDTH_def)
  show ?thesis
    using startup_wf h2 h3 h4
      Set_Pixel_and_Set_Palette_frame [OF startup_wf h2 h3 h4, of PALETTE_VINTAGE]
    by (auto simp add: t palette_table_def split: sum.splits)
qed

end
